theory Spec2Isabelle
  imports Main "HOL-Library.Sublist"
begin

section \<open>JavaScript values used by the services\<close>

text \<open>
  An exception is an \<open>Error\<close> object; the code only ever reads its \<open>message\<close>.
  An awaited call yields \<open>Inl e\<close> when the promise rejects with \<open>e\<close> and \<open>Inr v\<close>
  when it resolves to \<open>v\<close>.
\<close>

datatype error = Error (message: string)

text \<open>\<open>String.prototype.includes\<close>: the needle occurs at some position of the text.\<close>

fun includesText :: "string \<Rightarrow> string \<Rightarrow> bool" where
  "includesText [] needle = (needle = [])"
| "includesText (c # cs) needle = (prefix needle (c # cs) \<or> includesText cs needle)"

text \<open>
  \<open>toString\<close> of a non-negative integer (a JavaScript number below \<open>2^53\<close> or a BigInt):
  its decimal digits, without leading zeros.
\<close>

definition digit :: "nat \<Rightarrow> char" where
  "digit d = char_of (48 + d)"

fun toString :: "nat \<Rightarrow> string" where
  "toString n = (if n < 10 then [digit n] else toString (n div 10) @ [digit (n mod 10)])"

declare toString.simps [simp del]

text \<open>
  \<open>BigInt(text)\<close> for the texts the services hand to it: a run of decimal digits gives
  its value (the empty text gives zero), anything else raises a SyntaxError.
\<close>

definition isDigit :: "char \<Rightarrow> bool" where
  "isDigit c = (48 \<le> (of_char c :: nat) \<and> (of_char c :: nat) \<le> 57)"

definition digitValue :: "char \<Rightarrow> nat" where
  "digitValue c = of_char c - 48"

definition BigInt :: "string \<Rightarrow> error + nat" where
  "BigInt text =
     (if list_all isDigit text
      then Inr (foldl (\<lambda>acc c. 10 * acc + digitValue c) 0 text)
      else Inl (Error ''Cannot convert to a BigInt''))"

text \<open>
  The relational operator \<open>greater than\<close> on two strings compares them code unit by code unit;
  a proper prefix is the smaller string.
\<close>

fun stringGreater :: "string \<Rightarrow> string \<Rightarrow> bool" where
  "stringGreater [] ys = False"
| "stringGreater (x # xs) [] = True"
| "stringGreater (x # xs) (y # ys) =
     (if (of_char y :: nat) < of_char x then True
      else if (of_char x :: nat) < of_char y then False
      else stringGreater xs ys)"

section \<open>services/monad.js: the retry governor and the result cache\<close>

text \<open>
  Time is \<open>Date.now()\<close> in milliseconds. The service state carries the clock, so that an
  awaited timer or upstream call is a state change that advances it. The field
  \<open>journal\<close> is not in the source: it records, in order, each timer the governor awaits
  and each invocation of the wrapped operation, so that the number of calls and their
  spacing can be stated.
\<close>

datatype step =
    Paced int      \<comment> \<open>the wait that keeps \<open>minRequestInterval\<close> between requests\<close>
  | Invoked int    \<comment> \<open>\<open>operation()\<close> was called at this time\<close>
  | Warned nat     \<comment> \<open>\<open>logger.warn\<close> of a rate limit at this attempt\<close>
  | BackedOff int  \<comment> \<open>the wait before the next attempt\<close>

record 'v cacheEntry =
  cvalue :: "'v option"     \<comment> \<open>field \<open>value\<close>; \<open>None\<close> is \<open>null\<close>\<close>
  timestamp :: int
  ttl :: int

record service =
  clock :: int
  lastRequestTime :: int
  minRequestInterval :: int
  maxRetries :: nat
  retryDelay :: int
  latestBlock :: "nat cacheEntry"
  greeting :: "string cacheEntry"
  journal :: "step list"

text \<open>The constructor, for a process started at time \<open>t0\<close>.\<close>

definition MonadService :: "int \<Rightarrow> service" where
  "MonadService t0 =
     \<lparr> clock = t0,
       lastRequestTime = 0,
       minRequestInterval = 1000,
       maxRetries = 3,
       retryDelay = 2000,
       latestBlock = \<lparr> cvalue = None, timestamp = 0, ttl = 2000 \<rparr>,
       greeting = \<lparr> cvalue = None, timestamp = 0, ttl = 5000 \<rparr>,
       journal = [] \<rparr>"

text \<open>\<open>await new Promise(resolve => setTimeout(resolve, ms))\<close>: the timer fires on time.\<close>

definition setTimeout :: "int \<Rightarrow> service \<Rightarrow> service" where
  "setTimeout ms s = s\<lparr> clock := clock s + ms \<rparr>"

definition jot :: "step \<Rightarrow> service \<Rightarrow> service" where
  "jot ev s = s\<lparr> journal := journal s @ [ev] \<rparr>"

text \<open>
  An upstream call (\<open>web3.eth.getBlockNumber()\<close>, \<open>contract.methods.greeting().call()\<close>)
  answers after some latency with a value or an error.
\<close>

record 'a reply =
  latency :: nat
  outcome :: "error + 'a"

definition await :: "'a reply \<Rightarrow> service \<Rightarrow> (error + 'a) \<times> service" where
  "await r s = (outcome r, s\<lparr> clock := clock s + int (latency r) \<rparr>)"

text \<open>
  The wrapped operation is a closure with effects of its own; \<open>operation k\<close> is what its
  \<open>k\<close>-th invocation by the loop does.
\<close>

type_synonym 'a operation = "nat \<Rightarrow> service \<Rightarrow> (error + 'a) \<times> service"

text \<open>The part of the \<open>try\<close> block before \<open>operation()\<close>.\<close>

definition pace :: "service \<Rightarrow> service" where
  "pace s =
     (let now = clock s;
          timeSinceLastRequest = now - lastRequestTime s;
          s1 = (if timeSinceLastRequest < minRequestInterval s
                then setTimeout (minRequestInterval s - timeSinceLastRequest)
                       (jot (Paced (minRequestInterval s - timeSinceLastRequest)) s)
                else s);
          s2 = s1\<lparr> lastRequestTime := clock s1 \<rparr>
      in jot (Invoked (clock s2)) s2)"

definition rateLimited :: "error \<Rightarrow> bool" where
  "rateLimited e = includesText (message e) ''request limit reached''"

text \<open>
  The \<open>for\<close> loop of \<open>executeWithRetry\<close>, entered at \<open>attempt\<close>. A loop that ends without
  returning makes the function return \<open>undefined\<close>, here \<open>Inr None\<close>.
\<close>

function attempts :: "'a operation \<Rightarrow> nat \<Rightarrow> nat \<Rightarrow> service \<Rightarrow> (error + 'a option) \<times> service" where
  "attempts operation retries attempt s =
     (if attempt \<le> retries then
        (case operation attempt (pace s) of
           (Inr v, s') \<Rightarrow> (Inr (Some v), s')
         | (Inl e, s') \<Rightarrow>
             if rateLimited e \<and> attempt < retries
             then attempts operation retries (Suc attempt)
                    (setTimeout (retryDelay s' * int attempt)
                       (jot (BackedOff (retryDelay s' * int attempt))
                          (jot (Warned attempt) s')))
             else (Inl e, s'))
      else (Inr None, s))"
  by pat_completeness auto
termination
  by (relation "measure (\<lambda>(operation, retries, attempt, s). Suc retries - attempt)") auto

declare attempts.simps [simp del]

definition executeWithRetry :: "'a operation \<Rightarrow> nat \<Rightarrow> service \<Rightarrow> (error + 'a option) \<times> service" where
  "executeWithRetry operation retries s = attempts operation retries 1 s"

text \<open>Truthiness of a cached value: \<open>null\<close>, \<open>0\<close>, \<open>0n\<close> and the empty string are falsy.\<close>

definition truthyNumber :: "nat option \<Rightarrow> bool" where
  "truthyNumber v = (case v of None \<Rightarrow> False | Some n \<Rightarrow> n \<noteq> 0)"

definition truthyString :: "string option \<Rightarrow> bool" where
  "truthyString v = (case v of None \<Rightarrow> False | Some text \<Rightarrow> text \<noteq> [])"

text \<open>
  \<open>getLatestBlockNumber\<close>; \<open>rpc k\<close> is the provider's answer to the \<open>k\<close>-th
  \<open>getBlockNumber\<close> request this call makes.
\<close>

definition fetchBlockNumber :: "(nat \<Rightarrow> nat reply) \<Rightarrow> string operation" where
  "fetchBlockNumber rpc k s =
     (case await (rpc k) s of
        (Inl e, s') \<Rightarrow> (Inl e, s')
      | (Inr blockNumber, s') \<Rightarrow>
          (Inr (toString blockNumber),
           s'\<lparr> latestBlock := \<lparr> cvalue = Some blockNumber, timestamp = clock s',
                                ttl = ttl (latestBlock s') \<rparr> \<rparr>))"

definition getLatestBlockNumber :: "(nat \<Rightarrow> nat reply) \<Rightarrow> service \<Rightarrow> (error + string option) \<times> service" where
  "getLatestBlockNumber rpc s =
     (if truthyNumber (cvalue (latestBlock s)) \<and>
         clock s - timestamp (latestBlock s) < ttl (latestBlock s)
      then (Inr (map_option toString (cvalue (latestBlock s))), s)
      else executeWithRetry (fetchBlockNumber rpc) (maxRetries s) s)"

text \<open>\<open>getData\<close>, the greeting stored in the contract.\<close>

definition fetchGreeting :: "(nat \<Rightarrow> string reply) \<Rightarrow> string operation" where
  "fetchGreeting rpc k s =
     (case await (rpc k) s of
        (Inl e, s') \<Rightarrow> (Inl e, s')
      | (Inr text, s') \<Rightarrow>
          (Inr text,
           s'\<lparr> greeting := \<lparr> cvalue = Some text, timestamp = clock s',
                             ttl = ttl (greeting s') \<rparr> \<rparr>))"

definition getData :: "(nat \<Rightarrow> string reply) \<Rightarrow> service \<Rightarrow> (error + string option) \<times> service" where
  "getData rpc s =
     (if truthyString (cvalue (greeting s)) \<and>
         clock s - timestamp (greeting s) < ttl (greeting s)
      then (Inr (cvalue (greeting s)), s)
      else executeWithRetry (fetchGreeting rpc) (maxRetries s) s)"

section \<open>JSON.stringify\<close>

text \<open>
  The values the services serialise are strings, non-negative integers and objects whose
  properties are written in insertion order. A string is written between double quotes
  with the double quote, the backslash and the control characters escaped.
\<close>

datatype json = JString string | JNumber nat | JObject "(string \<times> json) list"

definition hexDigit :: "nat \<Rightarrow> char" where
  "hexDigit d = (if d < 10 then char_of (48 + d) else char_of (87 + d))"

definition escape :: "char \<Rightarrow> string" where
  "escape c =
     (let code = (of_char c :: nat) in
      if code = 34 then [CHR 0x5C, CHR 0x22]
      else if code = 92 then [CHR 0x5C, CHR 0x5C]
      else if code = 8 then [CHR 0x5C, CHR ''b'']
      else if code = 12 then [CHR 0x5C, CHR ''f'']
      else if code = 10 then [CHR 0x5C, CHR ''n'']
      else if code = 13 then [CHR 0x5C, CHR ''r'']
      else if code = 9 then [CHR 0x5C, CHR ''t'']
      else if code < 32
        then [CHR 0x5C, CHR ''u'', CHR ''0'', CHR ''0'', hexDigit (code div 16), hexDigit (code mod 16)]
      else [c])"

definition quoted :: "string \<Rightarrow> string" where
  "quoted text = [CHR 0x22] @ concat (map escape text) @ [CHR 0x22]"

fun commaSeparated :: "string list \<Rightarrow> string" where
  "commaSeparated [] = []"
| "commaSeparated [x] = x"
| "commaSeparated (x # y # ys) = x @ '','' @ commaSeparated (y # ys)"

fun stringify :: "json \<Rightarrow> string" where
  "stringify (JString text) = quoted text"
| "stringify (JNumber n) = toString n"
| "stringify (JObject properties) =
     ''{'' @ commaSeparated (map (\<lambda>p. quoted (fst p) @ '':'' @ stringify (snd p)) properties) @ ''}''"


section \<open>index.js: the block poller and the SSE and MCP-SSE endpoints\<close>

text \<open>
  A block as \<open>web3.eth.getBlock(number, true)\<close> returns it. An optional field is
  \<open>None\<close> when the provider leaves it out. The transactions stand for themselves by
  their hashes; only their count is used.
\<close>

record block =
  number :: nat
  hash :: string
  timestamp_block :: nat      \<comment> \<open>field \<open>timestamp\<close>\<close>
  gasUsed :: "nat option"
  miner :: string
  baseFeePerGas :: "nat option"
  difficulty :: "nat option"
  totalDifficulty :: "nat option"
  transactions :: "string list"

text \<open>
  \<open>(x || '0').toString()\<close> and \<open>x ? x.toString() : '0'\<close>: a missing or zero quantity is
  written as \<open>0\<close>.
\<close>

definition orZero :: "nat option \<Rightarrow> string" where
  "orZero x = (case x of None \<Rightarrow> ''0'' | Some q \<Rightarrow> if q = 0 then ''0'' else toString q)"

datatype logline = LogInfo string | LogWarn string | LogError string string

text \<open>
  An \<open>async\<close> function runs until an \<open>await\<close> and resumes when the awaited call
  settles; other handlers run in between. A suspended activation is a task: of
  \<open>startBlockPolling\<close> waiting for its \<open>getLatestBlockNumber\<close>, or of \<open>poll\<close> waiting
  for \<open>getLatestBlockNumber\<close> or, with \<open>currentBlock\<close> in hand, for \<open>getBlock\<close>. The flag
  of a \<open>poll\<close> task says that it is the first poll, which \<open>startBlockPolling\<close> awaits.
\<close>

datatype task = StartAwaitsBaseline | PollAwaitsHead bool | PollAwaitsBlock bool string

text \<open>
  The module's variables. A response object is known by a number. \<open>written\<close> lists the
  \<open>res.write\<close> calls in order, with the response written to; a write to a closed
  connection does not throw, so a write only adds to this list. \<open>newBlockListeners\<close> are
  the \<open>blockUpdateHandler\<close>s registered on \<open>monadService\<close> for the event \<open>newBlock\<close>, by
  response.

  \<open>blockPollingInterval\<close> is the timeout object the variable holds, given by its delay,
  \<open>None\<close> being \<open>null\<close>; \<open>armed\<close> says that this timeout is still to fire (it has neither
  fired nor been cleared). \<open>strays\<close> are the delays of the timeouts of \<open>poll\<close> that are
  still to fire and that the variable no longer holds, because another timeout was
  assigned to it in the meantime. \<open>restarts\<close> counts the pending
  \<open>setTimeout(startBlockPolling, ...)\<close> timers and \<open>initialRetries\<close> lists the responses
  with a pending \<open>setTimeout(sendInitialData, ...)\<close>. \<open>tasks\<close> are the suspended
  activations, each under the number it got when it was suspended. \<open>armed\<close>, \<open>strays\<close>,
  \<open>restarts\<close>, \<open>initialRetries\<close>, \<open>tasks\<close> and \<open>spawned\<close> stand for the timers and
  promises of the runtime; no variable of the source holds them.
\<close>

record server =
  sseClients :: "nat list"
  mcpClients :: "nat list"
  newBlockListeners :: "nat list"
  blockPollingInterval :: "nat option"
  armed :: bool
  strays :: "nat list"
  lastBlock :: "string option"
  consecutiveErrors :: nat
  restarts :: nat
  initialRetries :: "nat list"
  tasks :: "(nat \<times> task) list"
  spawned :: nat
  written :: "(nat \<times> string) list"
  logged :: "logline list"

definition MAX_CONSECUTIVE_ERRORS :: nat where "MAX_CONSECUTIVE_ERRORS = 3"
definition POLLING_INTERVAL :: nat where "POLLING_INTERVAL = 2000"
definition ERROR_POLLING_INTERVAL :: nat where "ERROR_POLLING_INTERVAL = 5000"

definition initialServer :: server where
  "initialServer =
     \<lparr> sseClients = [], mcpClients = [], newBlockListeners = [],
       blockPollingInterval = None, armed = False, strays = [], lastBlock = None,
       consecutiveErrors = 0, restarts = 0, initialRetries = [], tasks = [], spawned = 0,
       written = [], logged = [] \<rparr>"

text \<open>\<open>Set.prototype.add\<close> and \<open>delete\<close>, on a set kept in insertion order.\<close>

definition setAdd :: "'a \<Rightarrow> 'a list \<Rightarrow> 'a list" where
  "setAdd x xs = (if x \<in> set xs then xs else xs @ [x])"

definition setDelete :: "'a \<Rightarrow> 'a list \<Rightarrow> 'a list" where
  "setDelete x xs = filter (\<lambda>y. y \<noteq> x) xs"

definition logger :: "logline \<Rightarrow> server \<Rightarrow> server" where
  "logger line s = s\<lparr> logged := logged s @ [line] \<rparr>"

text \<open>The chunk \<open>`data: ${text}\n\n`\<close>.\<close>

definition dataFrame :: "string \<Rightarrow> string" where
  "dataFrame text = ''data: '' @ text @ [CHR 0x0A, CHR 0x0A]"

definition resWrite :: "nat \<Rightarrow> string \<Rightarrow> server \<Rightarrow> server" where
  "resWrite res chunk s = s\<lparr> written := written s @ [(res, chunk)] \<rparr>"

text \<open>\<open>sseClients.forEach(client => client.write(chunk))\<close>.\<close>

definition writeAll :: "string \<Rightarrow> server \<Rightarrow> server" where
  "writeAll chunk s = fold (\<lambda>client. resWrite client chunk) (sseClients s) s"

text \<open>
  What one run of \<open>poll\<close> gets from its awaited calls: \<open>latest\<close> is the outcome of
  \<open>monadService.getLatestBlockNumber()\<close>, given by the number whose decimal text it
  resolves to, and \<open>getBlock\<close> that of \<open>web3.eth.getBlock(currentBlock, true)\<close>, where
  \<open>Inr None\<close> is \<open>null\<close>.
\<close>

record observation =
  latest :: "error + nat"
  getBlock :: "string \<Rightarrow> error + block option"

definition blockInfo :: "block \<Rightarrow> json" where
  "blockInfo b =
     JObject
       [(''number'', JString (toString (number b))),
        (''hash'', JString (hash b)),
        (''timestamp'', JString (toString (timestamp_block b))),
        (''gasUsed'', JString (orZero (gasUsed b))),
        (''miner'', JString (miner b)),
        (''baseFeePerGas'', JString (orZero (baseFeePerGas b))),
        (''difficulty'', JString (orZero (difficulty b))),
        (''totalDifficulty'', JString (orZero (totalDifficulty b)))]"

definition newBlockFrame :: "block \<Rightarrow> string" where
  "newBlockFrame b =
     dataFrame (stringify (JObject [(''type'', JString ''newBlock''), (''data'', blockInfo b)]))"

definition pollErrorFrame :: string where
  "pollErrorFrame =
     dataFrame (stringify (JObject
       [(''type'', JString ''error''),
        (''data'', JObject
           [(''message'', JString ''Experiencing temporary issues with block updates'')])]))"

text \<open>
  \<open>blockPollingInterval = setTimeout(poll, delay)\<close>: the timeout the variable held, if
  it is still to fire, stays pending without a holder.
\<close>

definition schedulePoll :: "nat \<Rightarrow> server \<Rightarrow> server" where
  "schedulePoll delay s =
     s\<lparr> strays := (case blockPollingInterval s of
                      Some held \<Rightarrow> if armed s then strays s @ [held] else strays s
                    | None \<Rightarrow> strays s),
        blockPollingInterval := Some delay,
        armed := True \<rparr>"

text \<open>The \<open>catch\<close> block of \<open>poll\<close>.\<close>

definition pollFailed :: "error \<Rightarrow> server \<Rightarrow> server" where
  "pollFailed e s =
     (let s1 = logger (LogError ''Error in SSE block polling:'' (message e)) s;
          s2 = s1\<lparr> consecutiveErrors := consecutiveErrors s1 + 1 \<rparr>;
          s3 = (if MAX_CONSECUTIVE_ERRORS \<le> consecutiveErrors s2
                then writeAll pollErrorFrame s2 else s2)
      in schedulePoll ERROR_POLLING_INTERVAL s3)"

text \<open>The last two statements of the \<open>try\<close> block.\<close>

definition pollDone :: "server \<Rightarrow> server" where
  "pollDone s = schedulePoll POLLING_INTERVAL (s\<lparr> consecutiveErrors := 0 \<rparr>)"

text \<open>The body of \<open>if (block)\<close>.\<close>

definition announce :: "block \<Rightarrow> string \<Rightarrow> server \<Rightarrow> server" where
  "announce b currentBlock s =
     logger (LogInfo ''New block broadcast to SSE clients:'')
       ((writeAll (newBlockFrame b) s)\<lparr> lastBlock := Some currentBlock \<rparr>)"

text \<open>\<open>BigInt(lastBlock)\<close>, where \<open>lastBlock\<close> may still be \<open>null\<close>.\<close>

definition BigIntOf :: "string option \<Rightarrow> error + nat" where
  "BigIntOf x = (case x of None \<Rightarrow> Inl (Error ''Cannot convert null to a BigInt'') | Some text \<Rightarrow> BigInt text)"

text \<open>
  \<open>poll\<close> from the moment its \<open>getLatestBlockNumber\<close> has settled with \<open>result\<close> up to
  its end or its next \<open>await\<close>: the comparison reads \<open>lastBlock\<close> as it is at this
  moment. The first component is \<open>Some currentBlock\<close> when \<open>poll\<close> now waits for
  \<open>getBlock(currentBlock, true)\<close>, and \<open>None\<close> when it has ended.
\<close>

definition pollResumed :: "error + nat \<Rightarrow> server \<Rightarrow> string option \<times> server" where
  "pollResumed result s =
     (case result of
        Inl e \<Rightarrow> (None, pollFailed e s)
      | Inr n \<Rightarrow>
          (let currentBlock = toString n in
           case BigInt currentBlock of
             Inl e \<Rightarrow> (None, pollFailed e s)
           | Inr current \<Rightarrow>
               (case BigIntOf (lastBlock s) of
                  Inl e \<Rightarrow> (None, pollFailed e s)
                | Inr previous \<Rightarrow>
                    if previous < current then (Some currentBlock, s)
                    else (None, pollDone s))))"

text \<open>\<open>poll\<close> from the moment its \<open>getBlock\<close> has settled with \<open>answer\<close> up to its end.\<close>

definition pollFetched :: "string \<Rightarrow> error + block option \<Rightarrow> server \<Rightarrow> server" where
  "pollFetched currentBlock answer s =
     (case answer of
        Inl e \<Rightarrow> pollFailed e s
      | Inr None \<Rightarrow> pollDone s
      | Inr (Some b) \<Rightarrow> pollDone (announce b currentBlock s))"

text \<open>One run of \<open>poll\<close> with nothing else running between its parts.\<close>

definition poll :: "observation \<Rightarrow> server \<Rightarrow> server" where
  "poll obs s =
     (case pollResumed (latest obs) s of
        (None, s') \<Rightarrow> s'
      | (Some currentBlock, s') \<Rightarrow> pollFetched currentBlock (getBlock obs currentBlock) s')"

subsection \<open>Suspended activations and timers\<close>

definition spawn :: "task \<Rightarrow> server \<Rightarrow> server" where
  "spawn t s = s\<lparr> tasks := tasks s @ [(spawned s, t)], spawned := spawned s + 1 \<rparr>"

definition retire :: "nat \<Rightarrow> server \<Rightarrow> server" where
  "retire k s = s\<lparr> tasks := filter (\<lambda>p. fst p \<noteq> k) (tasks s) \<rparr>"

text \<open>
  \<open>startBlockPolling\<close> up to its first \<open>await\<close>: the test of \<open>blockPollingInterval\<close>,
  then the call of \<open>getLatestBlockNumber\<close>. Nothing is assigned before the \<open>await\<close>.
\<close>

definition startBlockPolling :: "server \<Rightarrow> server" where
  "startBlockPolling s =
     (if blockPollingInterval s \<noteq> None then s else spawn StartAwaitsBaseline s)"

text \<open>
  The statement after \<open>await poll()\<close> in \<open>startBlockPolling\<close>, reached when the first
  poll has ended (\<open>poll\<close> catches its own errors).
\<close>

definition started :: "bool \<Rightarrow> server \<Rightarrow> server" where
  "started first s = (if first then logger (LogInfo ''SSE block polling started'') s else s)"

text \<open>
  The task \<open>k\<close> of \<open>startBlockPolling\<close> resumes with the outcome of
  \<open>getLatestBlockNumber\<close>: on an error the \<open>catch\<close> block sets the timer of a new start, on
  a value \<open>lastBlock\<close> is assigned and \<open>poll()\<close> runs up to its first \<open>await\<close>.
\<close>

definition baselineResolved :: "nat \<Rightarrow> error + nat \<Rightarrow> server \<Rightarrow> server" where
  "baselineResolved k result s =
     (case map_of (tasks s) k of
        Some StartAwaitsBaseline \<Rightarrow>
          (case result of
             Inl e \<Rightarrow>
               (logger (LogError ''Error starting SSE block polling:'' (message e)) (retire k s))
                 \<lparr> restarts := restarts s + 1 \<rparr>
           | Inr n \<Rightarrow>
               spawn (PollAwaitsHead True) ((retire k s)\<lparr> lastBlock := Some (toString n) \<rparr>))
      | _ \<Rightarrow> s)"

text \<open>The task \<open>k\<close> of \<open>poll\<close> resumes with the outcome of \<open>getLatestBlockNumber\<close>.\<close>

definition headResolved :: "nat \<Rightarrow> error + nat \<Rightarrow> server \<Rightarrow> server" where
  "headResolved k result s =
     (case map_of (tasks s) k of
        Some (PollAwaitsHead first) \<Rightarrow>
          (case pollResumed result (retire k s) of
             (None, s') \<Rightarrow> started first s'
           | (Some currentBlock, s') \<Rightarrow> spawn (PollAwaitsBlock first currentBlock) s')
      | _ \<Rightarrow> s)"

text \<open>The task \<open>k\<close> of \<open>poll\<close> resumes with the outcome of \<open>getBlock\<close>.\<close>

definition blockResolved :: "nat \<Rightarrow> error + block option \<Rightarrow> server \<Rightarrow> server" where
  "blockResolved k answer s =
     (case map_of (tasks s) k of
        Some (PollAwaitsBlock first currentBlock) \<Rightarrow>
          started first (pollFetched currentBlock answer (retire k s))
      | _ \<Rightarrow> s)"

text \<open>
  \<open>stopBlockPolling\<close>: \<open>clearTimeout\<close> of the timeout the variable holds. A timeout that
  has fired, and the \<open>poll\<close> it started, are not touched.
\<close>

definition stopBlockPolling :: "server \<Rightarrow> server" where
  "stopBlockPolling s =
     (if blockPollingInterval s \<noteq> None
      then logger (LogInfo ''SSE block polling stopped'')
             (s\<lparr> armed := False, blockPollingInterval := None, consecutiveErrors := 0 \<rparr>)
      else s)"

text \<open>
  A timeout of \<open>poll\<close> fires, the one the variable holds or the oldest stray one: \<open>poll\<close>
  runs up to its first \<open>await\<close>. A timeout that was cleared does not fire.
\<close>

definition pollTimerFires :: "server \<Rightarrow> server" where
  "pollTimerFires s = (if armed s then spawn (PollAwaitsHead False) (s\<lparr> armed := False \<rparr>) else s)"

definition strayTimerFires :: "server \<Rightarrow> server" where
  "strayTimerFires s =
     (case strays s of
        [] \<Rightarrow> s
      | delay # rest \<Rightarrow> spawn (PollAwaitsHead False) (s\<lparr> strays := rest \<rparr>))"

text \<open>
  The timeout the variable holds fires and the \<open>poll\<close> it starts runs to its end before
  anything else happens.
\<close>

definition pollTimer :: "observation \<Rightarrow> server \<Rightarrow> server" where
  "pollTimer obs s = (if armed s then poll obs (s\<lparr> armed := False \<rparr>) else s)"

text \<open>The timer that runs \<open>startBlockPolling\<close> again after its first fetch failed.\<close>

definition restartTimer :: "server \<Rightarrow> server" where
  "restartTimer s =
     (if restarts s = 0 then s else startBlockPolling (s\<lparr> restarts := restarts s - 1 \<rparr>))"


subsection \<open>The endpoint \<open>/sse\<close>\<close>

text \<open>What \<open>sendInitialData\<close> gets from \<open>getLatestBlockNumber\<close> and \<open>getData\<close>.\<close>

record initialData =
  currentBlockNumber :: "error + nat"
  currentGreeting :: "error + string"

definition currentBlockFrame :: "nat \<Rightarrow> string" where
  "currentBlockFrame n =
     dataFrame (stringify (JObject
       [(''type'', JString ''current_block''),
        (''data'', JObject [(''blockNumber'', JString (toString n))])]))"

definition currentGreetingFrame :: "string \<Rightarrow> string" where
  "currentGreetingFrame g =
     dataFrame (stringify (JObject
       [(''type'', JString ''current_greeting''),
        (''data'', JObject [(''greeting'', JString g)])]))"

definition initialErrorFrame :: string where
  "initialErrorFrame =
     dataFrame (stringify (JObject
       [(''type'', JString ''error''),
        (''data'', JObject
           [(''message'', JString ''Failed to fetch initial data, will retry shortly'')])]))"

definition initialDataFailed :: "nat \<Rightarrow> error \<Rightarrow> server \<Rightarrow> server" where
  "initialDataFailed res e s =
     (resWrite res initialErrorFrame
        (logger (LogError ''Error sending initial SSE data:'' (message e)) s))
       \<lparr> initialRetries := initialRetries s @ [res] \<rparr>"

definition sendInitialData :: "nat \<Rightarrow> initialData \<Rightarrow> server \<Rightarrow> server" where
  "sendInitialData res init s =
     (case currentBlockNumber init of
        Inl e \<Rightarrow> initialDataFailed res e s
      | Inr n \<Rightarrow>
          (let s1 = resWrite res (currentBlockFrame n) s in
           case currentGreeting init of
             Inl e \<Rightarrow> initialDataFailed res e s1
           | Inr g \<Rightarrow> if g \<noteq> [] then resWrite res (currentGreetingFrame g) s1 else s1))"

text \<open>The timer that runs \<open>sendInitialData\<close> again after a failure.\<close>

definition initialRetryTimer :: "nat \<Rightarrow> initialData \<Rightarrow> server \<Rightarrow> server" where
  "initialRetryTimer res init s =
     (if res \<in> set (initialRetries s)
      then sendInitialData res init (s\<lparr> initialRetries := remove1 res (initialRetries s) \<rparr>)
      else s)"

text \<open>
  The handler of \<open>GET /sse\<close>, from the moment \<open>sendInitialData\<close> has its answers: it
  calls \<open>startBlockPolling\<close> without awaiting it.
\<close>

definition sseConnect :: "nat \<Rightarrow> initialData \<Rightarrow> server \<Rightarrow> server" where
  "sseConnect res init s =
     (let s1 = sendInitialData res init s;
          s2 = logger (LogInfo ''New SSE client connected'')
                 (s1\<lparr> sseClients := setAdd res (sseClients s1) \<rparr>)
      in if length (sseClients s2) = 1 then startBlockPolling s2 else s2)"

text \<open>The handler of the request's \<open>close\<close> event.\<close>

definition sseClose :: "nat \<Rightarrow> server \<Rightarrow> server" where
  "sseClose res s =
     (let s1 = logger (LogInfo ''SSE client disconnected'')
                 (s\<lparr> sseClients := setDelete res (sseClients s) \<rparr>)
      in if length (sseClients s1) = 0 then stopBlockPolling s1 else s1)"

text \<open>The heartbeat interval of a response runs from its connection to its close.\<close>

definition sseHeartbeat :: "nat \<Rightarrow> server \<Rightarrow> server" where
  "sseHeartbeat res s =
     (if res \<in> set (sseClients s) then resWrite res ('':'' @ [CHR 0x0A, CHR 0x0A]) s else s)"

subsection \<open>The endpoint \<open>/mcp-sse\<close>\<close>

definition initMessage :: "nat \<Rightarrow> json" where
  "initMessage now =
     JObject
       [(''jsonrpc'', JString ''2.0''),
        (''id'', JNumber 0),
        (''result'', JObject
           [(''status'', JString ''connected''),
            (''clientId'', JString (toString now)),
            (''serverInfo'', JObject
               [(''name'', JString ''pikimon-mcp-server''),
                (''version'', JString ''2.0''),
                (''transport'', JString ''sse'')])])]"

definition heartbeatMsg :: "nat \<Rightarrow> json" where
  "heartbeatMsg now =
     JObject
       [(''jsonrpc'', JString ''2.0''),
        (''method'', JString ''heartbeat''),
        (''params'', JObject [(''timestamp'', JNumber now), (''status'', JString ''alive'')])]"

definition blockMsg :: "block \<Rightarrow> json" where
  "blockMsg b =
     JObject
       [(''jsonrpc'', JString ''2.0''),
        (''method'', JString ''block/new''),
        (''params'', JObject
           [(''block'', JObject
               [(''number'', JString (toString (number b))),
                (''hash'', JString (hash b)),
                (''timestamp'', JString (toString (timestamp_block b))),
                (''transactions'', JNumber (length (transactions b)))])])]"

text \<open>
  \<open>blockUpdateHandler\<close> of the response \<open>res\<close>; \<open>answer\<close> is the outcome of its
  \<open>getBlock\<close> call.
\<close>

definition blockUpdateHandler :: "nat \<Rightarrow> (error + block option) \<Rightarrow> server \<Rightarrow> server" where
  "blockUpdateHandler res answer s =
     (case answer of
        Inl e \<Rightarrow> logger (LogError ''Error handling block update:'' (message e)) s
      | Inr None \<Rightarrow> s
      | Inr (Some b) \<Rightarrow> resWrite res (dataFrame (stringify (blockMsg b))) s)"

text \<open>
  \<open>monadService.emit('newBlock', blockNumber)\<close> would run the registered handlers in
  order. No statement of the repository emits this event, so no handler of the server
  below uses \<open>emitNewBlock\<close>.
\<close>

definition emitNewBlock :: "(error + block option) \<Rightarrow> server \<Rightarrow> server" where
  "emitNewBlock answer s = fold (\<lambda>res. blockUpdateHandler res answer) (newBlockListeners s) s"

text \<open>
  The handler of \<open>GET /mcp-sse\<close> at time \<open>now\<close>, and the handler of its request's
  \<open>close\<close> event. Each looks at \<open>mcpClients\<close> to start or stop the poller that
  \<open>/sse\<close> also starts and stops.
\<close>

definition mcpConnect :: "nat \<Rightarrow> nat \<Rightarrow> server \<Rightarrow> server" where
  "mcpConnect res now s =
     (let s1 = s\<lparr> mcpClients := setAdd res (mcpClients s) \<rparr>;
          s2 = resWrite res (dataFrame (stringify (initMessage now))) s1;
          s3 = s2\<lparr> newBlockListeners := newBlockListeners s2 @ [res] \<rparr>;
          s4 = (if length (mcpClients s3) = 1 then startBlockPolling s3 else s3)
      in logger (LogInfo ''MCP SSE client connected:'') s4)"

definition mcpClose :: "nat \<Rightarrow> server \<Rightarrow> server" where
  "mcpClose res s =
     (let s1 = s\<lparr> mcpClients := setDelete res (mcpClients s) \<rparr>;
          s2 = s1\<lparr> newBlockListeners := remove1 res (newBlockListeners s1) \<rparr>;
          s3 = (if length (mcpClients s2) = 0 then stopBlockPolling s2 else s2)
      in logger (LogInfo ''MCP SSE client disconnected:'') s3)"

definition mcpHeartbeat :: "nat \<Rightarrow> nat \<Rightarrow> server \<Rightarrow> server" where
  "mcpHeartbeat res now s =
     (if res \<in> set (mcpClients s)
      then resWrite res (dataFrame (stringify (heartbeatMsg now))) s else s)"


section \<open>services/websocket.js: the WebSocket service\<close>

text \<open>
  A client socket has a \<open>readyState\<close>, and its \<open>send\<close> may throw: \<open>sendError\<close> is the
  error it throws, if any. \<open>sent\<close> lists the texts that \<open>send\<close> accepted, with the
  socket they went to.
\<close>

datatype readyState = CONNECTING | OPEN | CLOSING | CLOSED

record wsClient =
  socket :: nat
  readyState :: readyState
  sendError :: "error option"

definition send :: "wsClient \<Rightarrow> string \<Rightarrow> error + unit" where
  "send client payload = (case sendError client of Some e \<Rightarrow> Inl e | None \<Rightarrow> Inr ())"

text \<open>
  \<open>this.subscription\<close>: the polling interval, together with the variable \<open>lastBlock\<close>
  of its closure, or the provider's subscription object.
\<close>

datatype subscription = Polling string | Subscribed

record webSocketService =
  wss :: bool                       \<comment> \<open>\<open>False\<close> is \<open>null\<close>\<close>
  clients :: "wsClient list"
  subscription :: "subscription option"
  sent :: "(nat \<times> string) list"
  wsLogged :: "logline list"

definition WebSocketService :: webSocketService where
  "WebSocketService =
     \<lparr> wss = False, clients = [], subscription = None, sent = [], wsLogged = [] \<rparr>"

definition wsLogger :: "logline \<Rightarrow> webSocketService \<Rightarrow> webSocketService" where
  "wsLogger line s = s\<lparr> wsLogged := wsLogged s @ [line] \<rparr>"

definition initialize :: "webSocketService \<Rightarrow> webSocketService" where
  "initialize s = wsLogger (LogInfo ''WebSocket server started'') (s\<lparr> wss := True \<rparr>)"

text \<open>The set of clients holds sockets; a socket is in it once.\<close>

definition addClient :: "wsClient \<Rightarrow> wsClient list \<Rightarrow> wsClient list" where
  "addClient ws cs = (if socket ws \<in> socket ` set cs then cs else cs @ [ws])"

definition deleteClient :: "nat \<Rightarrow> wsClient list \<Rightarrow> wsClient list" where
  "deleteClient sock cs = filter (\<lambda>c. socket c \<noteq> sock) cs"

definition connectionMessage :: "nat \<Rightarrow> json" where
  "connectionMessage now =
     JObject
       [(''type'', JString ''connection''),
        (''status'', JString ''connected''),
        (''timestamp'', JNumber now)]"

text \<open>
  The handler of the server's \<open>connection\<close> event. Its \<open>send\<close> is not guarded: an error
  it throws leaves the handler, which the first component reports.
\<close>

definition onConnection :: "wsClient \<Rightarrow> nat \<Rightarrow> webSocketService \<Rightarrow> error option \<times> webSocketService" where
  "onConnection ws now s =
     (let s1 = wsLogger (LogInfo ''WebSocket client connected'')
                 (s\<lparr> clients := addClient ws (clients s) \<rparr>)
      in case send ws (stringify (connectionMessage now)) of
           Inl e \<Rightarrow> (Some e, s1)
         | Inr _ \<Rightarrow>
             (None, s1\<lparr> sent := sent s1 @ [(socket ws, stringify (connectionMessage now))] \<rparr>))"

definition onClose :: "nat \<Rightarrow> webSocketService \<Rightarrow> webSocketService" where
  "onClose sock s =
     wsLogger (LogInfo ''WebSocket client disconnected'')
       (s\<lparr> clients := deleteClient sock (clients s) \<rparr>)"

definition onError :: "nat \<Rightarrow> error \<Rightarrow> webSocketService \<Rightarrow> webSocketService" where
  "onError sock e s =
     (wsLogger (LogError ''WebSocket client error:'' (message e)) s)
       \<lparr> clients := deleteClient sock (clients s) \<rparr>"

text \<open>The body of the \<open>forEach\<close> of \<open>broadcast\<close>, for one client.\<close>

definition sendTo :: "string \<Rightarrow> wsClient \<Rightarrow> webSocketService \<Rightarrow> webSocketService" where
  "sendTo payload client s =
     (if readyState client = OPEN then
        (case send client payload of
           Inl e \<Rightarrow> wsLogger (LogError ''Error broadcasting to client:'' (message e)) s
         | Inr _ \<Rightarrow> s\<lparr> sent := sent s @ [(socket client, payload)] \<rparr>)
      else s)"

definition broadcast :: "json \<Rightarrow> webSocketService \<Rightarrow> webSocketService" where
  "broadcast msg s =
     (if \<not> wss s then wsLogger (LogWarn ''WebSocket server not initialized'') s
      else fold (sendTo (stringify msg)) (clients s) s)"

text \<open>
  \<open>handleNewBlock\<close> hands \<open>broadcast\<close> the text \<open>JSON.stringify(...)\<close> of the event, and
  \<open>broadcast\<close> applies \<open>JSON.stringify\<close> to what it is handed.
\<close>

definition headerInfo :: "block \<Rightarrow> json" where
  "headerInfo blockHeader =
     JObject
       [(''number'', JString (toString (number blockHeader))),
        (''hash'', JString (hash blockHeader)),
        (''timestamp'', JString (toString (timestamp_block blockHeader))),
        (''gasUsed'', JString (orZero (gasUsed blockHeader))),
        (''miner'', JString (miner blockHeader))]"

definition newBlockEvent :: "block \<Rightarrow> json" where
  "newBlockEvent blockHeader =
     JObject [(''type'', JString ''newBlock''), (''data'', headerInfo blockHeader)]"

definition handleNewBlock :: "block \<Rightarrow> webSocketService \<Rightarrow> webSocketService" where
  "handleNewBlock blockHeader s =
     wsLogger (LogInfo ''New block received:'')
       (broadcast (JString (stringify (newBlockEvent blockHeader))) s)"

text \<open>
  The polling branch of \<open>startBlockHeaderSubscription\<close> once its first
  \<open>getLatestBlockNumber\<close> has resolved to the text \<open>initial\<close>, and the subscription
  branch once \<open>subscribe\<close> has returned. The retry of the \<open>catch\<close> block is left out.
\<close>

definition startPolling :: "string \<Rightarrow> webSocketService \<Rightarrow> webSocketService" where
  "startPolling initial s =
     wsLogger (LogInfo ''Block header polling started successfully'')
       (s\<lparr> subscription := Some (Polling initial) \<rparr>)"

definition startSubscription :: "webSocketService \<Rightarrow> webSocketService" where
  "startSubscription s =
     wsLogger (LogInfo ''Block header subscription started successfully via WebSocket'')
       (s\<lparr> subscription := Some Subscribed \<rparr>)"

text \<open>
  The callback of \<open>setInterval\<close>; \<open>previousBlock\<close> is the closure's \<open>lastBlock\<close>.
  \<open>getLatestBlockNumber\<close> resolves to a text, so the comparison of \<open>currentBlock\<close>
  with \<open>lastBlock\<close> compares two texts.
\<close>

definition intervalTick :: "observation \<Rightarrow> webSocketService \<Rightarrow> webSocketService" where
  "intervalTick obs s =
     (case subscription s of
        Some (Polling previousBlock) \<Rightarrow>
          (case latest obs of
             Inl e \<Rightarrow> wsLogger (LogError ''Error in block polling:'' (message e)) s
           | Inr n \<Rightarrow>
               (let currentBlock = toString n in
                if stringGreater currentBlock previousBlock then
                  (case getBlock obs currentBlock of
                     Inl e \<Rightarrow> wsLogger (LogError ''Error in block polling:'' (message e)) s
                   | Inr None \<Rightarrow> s
                   | Inr (Some b) \<Rightarrow>
                       (handleNewBlock b s)\<lparr> subscription := Some (Polling currentBlock) \<rparr>)
                else s))
      | _ \<Rightarrow> s)"


definition stopBlockHeaderSubscription :: "webSocketService \<Rightarrow> webSocketService" where
  "stopBlockHeaderSubscription s =
     (case subscription s of
        None \<Rightarrow> s
      | Some _ \<Rightarrow>
          (wsLogger (LogInfo ''Stopping block header subscription/polling'') s)
            \<lparr> subscription := None \<rparr>)"


section \<open>Notions used to state the properties of the governor and the cache\<close>

text \<open>
  \<open>pacing s\<close> is the journal entry of the spacing wait that a request issued in state
  \<open>s\<close> needs, if any. An operation is \<open>governed\<close> when it leaves the governor's
  fields and the journal alone and does not turn the clock back; the two closures of the
  source are. \<open>later\<close> lets time pass while nothing runs. \<open>fetchedAfresh s s'\<close> says
  that from \<open>s\<close> to \<open>s'\<close> the wrapped operation was invoked. The providers and
  services at the end are the concrete inputs of the examples.
\<close>

definition pacing :: "service \<Rightarrow> step list" where
  "pacing s =
     (if clock s - lastRequestTime s < minRequestInterval s
      then [Paced (minRequestInterval s - (clock s - lastRequestTime s))] else [])"

definition governed :: "'a operation \<Rightarrow> bool" where
  "governed operation =
     (\<forall>k s. clock s \<le> clock (snd (operation k s)) \<and>
            lastRequestTime (snd (operation k s)) = lastRequestTime s \<and>
            minRequestInterval (snd (operation k s)) = minRequestInterval s \<and>
            retryDelay (snd (operation k s)) = retryDelay s \<and>
            journal (snd (operation k s)) = journal s)"

definition later :: "int \<Rightarrow> service \<Rightarrow> service" where
  "later elapsed s = s\<lparr> clock := clock s + elapsed \<rparr>"

definition busyProvider :: "nat \<Rightarrow> nat reply" where
  "busyProvider k =
     (if k < 3 then \<lparr> latency = 40, outcome = Inl (Error ''429: request limit reached'') \<rparr>
      else \<lparr> latency = 40, outcome = Inr 102 \<rparr>)"

definition brokenProvider :: "nat \<Rightarrow> nat reply" where
  "brokenProvider k = \<lparr> latency = 40, outcome = Inl (Error ''connect ECONNREFUSED'') \<rparr>"

definition emptyGreeting :: "nat \<Rightarrow> string reply" where
  "emptyGreeting k = \<lparr> latency = 40, outcome = Inr [] \<rparr>"

definition fetchedAfresh :: "service \<Rightarrow> service \<Rightarrow> bool" where
  "fetchedAfresh s s' = prefix (journal s @ pacing s @ [Invoked (clock (pace s))]) (journal s')"

text \<open>
  \<open>arrived r s\<close> is the service at the moment the first request issued from \<open>s\<close> gets
  the reply \<open>r\<close>; \<open>blockStored\<close> and \<open>greetingStored\<close> are the service once the
  closure has put the value of that reply into the cache.
\<close>

definition arrived :: "'a reply \<Rightarrow> service \<Rightarrow> service" where
  "arrived r s = (pace s)\<lparr> clock := clock (pace s) + int (latency r) \<rparr>"

definition blockStored :: "nat reply \<Rightarrow> nat \<Rightarrow> service \<Rightarrow> service" where
  "blockStored r n s =
     (arrived r s)\<lparr> latestBlock :=
        \<lparr> cvalue = Some n, timestamp = clock (arrived r s), ttl = ttl (latestBlock s) \<rparr> \<rparr>"

definition greetingStored :: "string reply \<Rightarrow> string \<Rightarrow> service \<Rightarrow> service" where
  "greetingStored r text s =
     (arrived r s)\<lparr> greeting :=
        \<lparr> cvalue = Some text, timestamp = clock (arrived r s), ttl = ttl (greeting s) \<rparr> \<rparr>"

definition afterBlockPut :: "(nat \<Rightarrow> nat reply) \<Rightarrow> nat \<Rightarrow> int \<Rightarrow> service \<Rightarrow> service" where
  "afterBlockPut rpc k elapsed s = later elapsed (snd (fetchBlockNumber rpc k s))"

definition afterGreetingPut :: "(nat \<Rightarrow> string reply) \<Rightarrow> nat \<Rightarrow> int \<Rightarrow> service \<Rightarrow> service" where
  "afterGreetingPut rpc k elapsed s = later elapsed (snd (fetchGreeting rpc k s))"

definition genesisProvider :: "nat \<Rightarrow> nat reply" where
  "genesisProvider k = \<lparr> latency = 40, outcome = Inr 0 \<rparr>"

definition steadyProvider :: "nat \<Rightarrow> nat reply" where
  "steadyProvider k = \<lparr> latency = 40, outcome = Inr 102 \<rparr>"

definition helloProvider :: "nat \<Rightarrow> string reply" where
  "helloProvider k = \<lparr> latency = 40, outcome = Inr ''hello'' \<rparr>"

definition genesisService :: service where
  "genesisService =
     afterGreetingPut emptyGreeting 1 100 (afterBlockPut genesisProvider 1 100 (MonadService 5000))"

definition emptyGreetingService :: service where
  "emptyGreetingService = afterGreetingPut emptyGreeting 1 1 (MonadService 5000)"

definition advancedProvider :: "nat \<Rightarrow> nat reply" where
  "advancedProvider k = \<lparr> latency = 40, outcome = Inr 103 \<rparr>"

definition byeProvider :: "nat \<Rightarrow> string reply" where
  "byeProvider k = \<lparr> latency = 40, outcome = Inr ''bye'' \<rparr>"

section \<open>The process: both services and the events that drive them\<close>

text \<open>
  An event is a request, a closed connection, a timer that fires or an awaited call that
  settles; its handler runs up to its end or its next \<open>await\<close> before the next event.
  \<open>PollTimer\<close> is the firing of the held timeout together with the whole run of \<open>poll\<close>
  it starts, for the histories in which nothing comes between the parts of that run.
  \<open>startServer\<close> calls \<open>wsService.initialize()\<close>; nothing in the repository calls
  \<open>startBlockHeaderSubscription\<close> or \<open>setupEventListeners\<close>, so the process has no event
  that reaches \<open>handleNewBlock\<close>.
\<close>

record process =
  http :: server
  ws :: webSocketService

definition startServer :: process where
  "startServer = \<lparr> http = initialServer, ws = initialize WebSocketService \<rparr>"

datatype event =
    SseConnect nat initialData
  | InitialRetryTimer nat initialData
  | SseClose nat
  | SseHeartbeat nat
  | McpConnect nat nat
  | McpClose nat
  | McpHeartbeat nat nat
  | BaselineResolved nat "error + nat"
  | HeadResolved nat "error + nat"
  | BlockResolved nat "error + block option"
  | PollTimerFires
  | StrayTimerFires
  | PollTimer observation
  | RestartTimer
  | WsConnection wsClient nat
  | WsClose nat
  | WsError nat error

fun handle :: "event \<Rightarrow> process \<Rightarrow> process" where
  "handle (SseConnect res init) p = p\<lparr> http := sseConnect res init (http p) \<rparr>"
| "handle (InitialRetryTimer res init) p = p\<lparr> http := initialRetryTimer res init (http p) \<rparr>"
| "handle (SseClose res) p = p\<lparr> http := sseClose res (http p) \<rparr>"
| "handle (SseHeartbeat res) p = p\<lparr> http := sseHeartbeat res (http p) \<rparr>"
| "handle (McpConnect res now) p = p\<lparr> http := mcpConnect res now (http p) \<rparr>"
| "handle (McpClose res) p = p\<lparr> http := mcpClose res (http p) \<rparr>"
| "handle (McpHeartbeat res now) p = p\<lparr> http := mcpHeartbeat res now (http p) \<rparr>"
| "handle (BaselineResolved k result) p = p\<lparr> http := baselineResolved k result (http p) \<rparr>"
| "handle (HeadResolved k result) p = p\<lparr> http := headResolved k result (http p) \<rparr>"
| "handle (BlockResolved k answer) p = p\<lparr> http := blockResolved k answer (http p) \<rparr>"
| "handle PollTimerFires p = p\<lparr> http := pollTimerFires (http p) \<rparr>"
| "handle StrayTimerFires p = p\<lparr> http := strayTimerFires (http p) \<rparr>"
| "handle (PollTimer obs) p = p\<lparr> http := pollTimer obs (http p) \<rparr>"
| "handle RestartTimer p = p\<lparr> http := restartTimer (http p) \<rparr>"
| "handle (WsConnection client now) p = p\<lparr> ws := snd (onConnection client now (ws p)) \<rparr>"
| "handle (WsClose sock) p = p\<lparr> ws := onClose sock (ws p) \<rparr>"
| "handle (WsError sock e) p = p\<lparr> ws := onError sock e (ws p) \<rparr>"

definition run :: "event list \<Rightarrow> process \<Rightarrow> process" where
  "run events p = fold handle events p"


section \<open>Notions used to state the properties of the trackers and the hub\<close>

text \<open>
  \<open>received who out\<close> are the texts that the connection \<open>who\<close> got, in order, among the
  writes or sends \<open>out\<close>. \<open>heads\<close> are the head numbers a list of observations
  delivers. An observation \<open>answersRequest\<close> when the block the provider returns for the
  requested number carries that number. \<open>newBlockText\<close> is the text a WebSocket client
  is sent for a block.
\<close>

definition received :: "nat \<Rightarrow> (nat \<times> string) list \<Rightarrow> string list" where
  "received who out = map snd (filter (\<lambda>w. fst w = who) out)"

definition heads :: "observation list \<Rightarrow> nat list" where
  "heads obss = concat (map (\<lambda>obs. case latest obs of Inl e \<Rightarrow> [] | Inr n \<Rightarrow> [n]) obss)"

definition answersRequest :: "observation \<Rightarrow> bool" where
  "answersRequest obs =
     (case latest obs of
        Inl e \<Rightarrow> True
      | Inr n \<Rightarrow>
          (case getBlock obs (toString n) of
             Inr (Some b) \<Rightarrow> number b = n
           | _ \<Rightarrow> True))"

definition newBlockText :: "block \<Rightarrow> string" where
  "newBlockText b = stringify (JString (stringify (newBlockEvent b)))"

definition accepts :: "wsClient \<Rightarrow> bool" where
  "accepts c = (readyState c = OPEN \<and> sendError c = None)"

definition sendFailures :: "wsClient list \<Rightarrow> logline list" where
  "sendFailures cs =
     concat (map (\<lambda>c. if readyState c = OPEN
                       then (case sendError c of
                               Some e \<Rightarrow> [LogError ''Error broadcasting to client:'' (message e)]
                             | None \<Rightarrow> [])
                       else []) cs)"


text \<open>\<open>fanout ids texts\<close>: each text in turn goes to every connection of \<open>ids\<close>.\<close>

definition fanout :: "nat list \<Rightarrow> string list \<Rightarrow> (nat \<times> string) list" where
  "fanout ids texts = concat (map (\<lambda>t. map (\<lambda>i. (i, t)) ids) texts)"

definition risingAbove :: "nat \<Rightarrow> block list \<Rightarrow> bool" where
  "risingAbove l bs = (sorted_wrt (<) (map number bs) \<and> list_all (\<lambda>b. l < number b) bs)"


section \<open>Concrete inputs\<close>

text \<open>
  A provider whose chain holds the blocks 102 and 103, what a poll observes of it when the
  head is \<open>n\<close>, and an observation during an outage.
\<close>

definition block102 :: block where
  "block102 =
     \<lparr> number = 102, hash = ''0xabc'', timestamp_block = 1700000000, gasUsed = Some 21000,
       miner = ''0xfee'', baseFeePerGas = None, difficulty = None, totalDifficulty = None,
       transactions = [''0x01'', ''0x02''] \<rparr>"

definition block103 :: block where
  "block103 =
     \<lparr> number = 103, hash = ''0xdef'', timestamp_block = 1700000002, gasUsed = None,
       miner = ''0xfee'', baseFeePerGas = Some 50, difficulty = None, totalDifficulty = None,
       transactions = [] \<rparr>"

definition chain :: "string \<Rightarrow> error + block option" where
  "chain requested =
     (if requested = ''102'' then Inr (Some block102)
      else if requested = ''103'' then Inr (Some block103)
      else Inr None)"

definition observe :: "nat \<Rightarrow> observation" where
  "observe n = \<lparr> latest = Inr n, getBlock = chain \<rparr>"

definition outage :: observation where
  "outage = \<lparr> latest = Inl (Error ''connect ECONNREFUSED''), getBlock = chain \<rparr>"

definition headsSeen :: "observation list" where
  "headsSeen = [observe 100, observe 102, observe 102, outage, observe 103]"

text \<open>
  A server whose first \<open>/sse\<close> client, response 1, has connected at head 100 and whose
  first poll has ended, and a WebSocket service with one open client, socket 7, polling
  from head 100 or subscribed.
\<close>

definition greeted :: initialData where
  "greeted = \<lparr> currentBlockNumber = Inr 100, currentGreeting = Inr ''hello'' \<rparr>"

definition firstSseClient :: "event list" where
  "firstSseClient = [SseConnect 1 greeted, BaselineResolved 0 (Inr 100), HeadResolved 1 (Inr 100)]"

definition tracking100 :: server where
  "tracking100 = http (run firstSseClient startServer)"

definition listener :: wsClient where
  "listener = \<lparr> socket = 7, readyState = OPEN, sendError = None \<rparr>"

definition deafClient :: wsClient where
  "deafClient = \<lparr> socket = 8, readyState = OPEN, sendError = Some (Error ''write EPIPE'') \<rparr>"

definition connected :: webSocketService where
  "connected =
     snd (onConnection listener 1700000000
       (snd (onConnection deafClient 1700000000 (initialize WebSocketService))))"

definition wsTracking100 :: webSocketService where
  "wsTracking100 = startPolling ''100'' connected"

definition wsSubscribed :: webSocketService where
  "wsSubscribed = startSubscription connected"

text \<open>
  The process with one client of each kind connected; the process after an MCP-SSE
  client came and went beside an SSE client; and the process whose only client left
  before the retry of a failed start.
\<close>

definition threeKinds :: process where
  "threeKinds =
     run (firstSseClient @
          [McpConnect 2 1700000000,
           WsConnection listener 1700000000]) startServer"

definition mcpCameAndWent :: process where
  "mcpCameAndWent =
     run (firstSseClient @
          [McpConnect 2 1700000000,
           McpClose 2]) startServer"

definition lateRestart :: process where
  "lateRestart =
     run [SseConnect 1 greeted,
          BaselineResolved 0 (Inl (Error ''connect ECONNREFUSED'')),
          SseClose 1,
          RestartTimer,
          BaselineResolved 1 (Inr 100),
          HeadResolved 2 (Inr 100)] startServer"




section \<open>Decimal texts and JSON strings: proofs\<close>

lemma digit_numeral [simp]:
  "digit 0 = CHR ''0''" "digit (Suc 0) = CHR ''1''" "digit 2 = CHR ''2''" "digit 3 = CHR ''3''"
  "digit 4 = CHR ''4''" "digit 5 = CHR ''5''" "digit 6 = CHR ''6''" "digit 7 = CHR ''7''"
  "digit 8 = CHR ''8''" "digit 9 = CHR ''9''" "digit (Suc (Suc 0)) = CHR ''2''"
  unfolding digit_def by code_simp+

lemma quoted_plain:
  "list_all (\<lambda>c. 32 \<le> (of_char c :: nat) \<and> of_char c \<noteq> (34::nat) \<and> of_char c \<noteq> (92::nat)) str
     \<Longrightarrow> quoted str = [CHR 0x22] @ str @ [CHR 0x22]"
  by (induction str) (auto simp add: quoted_def escape_def)

lemma of_char_digit: "d < 10 \<Longrightarrow> of_char (digit d) = 48 + d"
  by (simp add: digit_def)

lemma BigInt_toString: "BigInt (toString n) = Inr n"
proof -
  have "list_all isDigit (toString n) \<and> foldl (\<lambda>acc c. 10 * acc + digitValue c) 0 (toString n) = n"
  proof (induction n rule: toString.induct)
    case (1 n)
    show ?case
    proof (cases "n < 10")
      case True
      then show ?thesis
        by (subst (1 2) toString.simps) (simp add: isDigit_def digitValue_def of_char_digit)
    next
      case False
      have m: "n mod 10 < 10" by simp
      have ih: "list_all isDigit (toString (n div 10))"
        "foldl (\<lambda>acc c. 10 * acc + digitValue c) 0 (toString (n div 10)) = n div 10"
        using 1 False by simp_all
      have unfold: "toString n = toString (n div 10) @ [digit (n mod 10)]"
        using False by (subst toString.simps) simp
      have last: "isDigit (digit (n mod 10))" "digitValue (digit (n mod 10)) = n mod 10"
        using m by (simp_all add: isDigit_def digitValue_def of_char_digit)
      show ?thesis
        unfolding unfold using ih last by simp
    qed
  qed
  then show ?thesis by (simp add: BigInt_def)
qed

lemma newBlockFrame_not_error: "newBlockFrame b \<noteq> pollErrorFrame"
  by (simp add: newBlockFrame_def pollErrorFrame_def dataFrame_def quoted_plain)

section \<open>The retry governor and the cache: proofs\<close>

lemma pace_fields [simp]:
  "minRequestInterval (pace s) = minRequestInterval s"
  "retryDelay (pace s) = retryDelay s"
  "maxRetries (pace s) = maxRetries s"
  "latestBlock (pace s) = latestBlock s"
  "greeting (pace s) = greeting s"
  by (simp_all add: pace_def Let_def setTimeout_def jot_def)

lemma pace_clock:
  "clock (pace s) = max (clock s) (lastRequestTime s + minRequestInterval s)"
  by (simp add: pace_def Let_def setTimeout_def jot_def max_def)

lemma pace_lastRequestTime [simp]: "lastRequestTime (pace s) = clock (pace s)"
  by (simp add: pace_def Let_def setTimeout_def jot_def)

lemma pace_journal: "journal (pace s) = journal s @ pacing s @ [Invoked (clock (pace s))]"
  by (simp add: pace_def Let_def setTimeout_def jot_def pacing_def)

lemma attempts_value:
  assumes "attempt \<le> retries" and "operation attempt (pace s) = (Inr v, s')"
  shows "attempts operation retries attempt s = (Inr (Some v), s')"
  using assms by (simp add: attempts.simps)

lemma attempts_retry:
  assumes "attempt < retries" and "operation attempt (pace s) = (Inl e, s')" and "rateLimited e"
  shows "attempts operation retries attempt s =
           attempts operation retries (Suc attempt)
             (setTimeout (retryDelay s' * int attempt)
                (jot (BackedOff (retryDelay s' * int attempt)) (jot (Warned attempt) s')))"
  using assms by (subst attempts.simps) simp

lemma attempts_throw:
  assumes "attempt \<le> retries" and "operation attempt (pace s) = (Inl e, s')"
    and "\<not> (rateLimited e \<and> attempt < retries)"
  shows "attempts operation retries attempt s = (Inl e, s')"
  using assms by (subst attempts.simps) auto

lemma jot_fields [simp]:
  "clock (jot ev s) = clock s"
  "lastRequestTime (jot ev s) = lastRequestTime s"
  "minRequestInterval (jot ev s) = minRequestInterval s"
  "retryDelay (jot ev s) = retryDelay s"
  "maxRetries (jot ev s) = maxRetries s"
  "journal (jot ev s) = journal s @ [ev]"
  by (simp_all add: jot_def)

lemma setTimeout_fields [simp]:
  "clock (setTimeout ms s) = clock s + ms"
  "lastRequestTime (setTimeout ms s) = lastRequestTime s"
  "minRequestInterval (setTimeout ms s) = minRequestInterval s"
  "retryDelay (setTimeout ms s) = retryDelay s"
  "maxRetries (setTimeout ms s) = maxRetries s"
  "journal (setTimeout ms s) = journal s"
  by (simp_all add: setTimeout_def)

lemma governedD:
  assumes "governed operation" and "operation k s = (r, s')"
  shows "clock s \<le> clock s'" "lastRequestTime s' = lastRequestTime s"
    "minRequestInterval s' = minRequestInterval s" "retryDelay s' = retryDelay s"
    "journal s' = journal s"
  using assms unfolding governed_def by (metis snd_conv)+

lemma governed_fetchBlockNumber: "governed (fetchBlockNumber rpc)"
  by (simp add: governed_def fetchBlockNumber_def await_def split: sum.splits)

lemma governed_fetchGreeting: "governed (fetchGreeting rpc)"
  by (simp add: governed_def fetchGreeting_def await_def split: sum.splits)

lemma fst_fetchBlockNumber:
  "fst (fetchBlockNumber rpc k s) = map_sum id toString (outcome (rpc k))"
  by (simp add: fetchBlockNumber_def await_def split: sum.splits)

lemma toString_102: "toString 102 = ''102''"
  by code_simp

lemma rateLimited_429: "rateLimited (Error ''429: request limit reached'')"
  by (simp add: rateLimited_def)

lemma not_rateLimited_refused: "\<not> rateLimited (Error ''connect ECONNREFUSED'')"
  by (simp add: rateLimited_def)

lemma attempts_journal_prefix:
  "governed operation \<Longrightarrow>
     prefix (journal s) (journal (snd (attempts operation retries attempt s)))"
proof (induction operation retries attempt s rule: attempts.induct)
  case (1 operation retries attempt s)
  note gov = \<open>governed operation\<close>
  show ?case
  proof (cases "attempt \<le> retries")
    case False
    then show ?thesis by (simp add: attempts.simps)
  next
    case True
    obtain r s' where o: "operation attempt (pace s) = (r, s')" by (cases "operation attempt (pace s)")
    have js': "journal s' = journal (pace s)" using governedD(5) [OF gov o] .
    have p0: "prefix (journal s) (journal s')" by (simp add: js' pace_journal)
    show ?thesis
    proof (cases r)
      case (Inr v)
      then show ?thesis using True o p0 by (simp add: attempts_value)
    next
      case (Inl e)
      show ?thesis
      proof (cases "rateLimited e \<and> attempt < retries")
        case False
        then show ?thesis using True o Inl p0 by (simp add: attempts_throw)
      next
        case yes: True
        let ?n = "setTimeout (retryDelay s' * int attempt)
                    (jot (BackedOff (retryDelay s' * int attempt)) (jot (Warned attempt) s'))"
        have "prefix (journal ?n) (journal (snd (attempts operation retries (Suc attempt) ?n)))"
          using "1.IH" [OF True o [symmetric] Inl yes gov] by simp
        moreover have "prefix (journal s) (journal ?n)" using p0 by (auto simp add: prefix_def)
        moreover have "attempts operation retries attempt s = attempts operation retries (Suc attempt) ?n"
          using yes o Inl by (intro attempts_retry) auto
        ultimately show ?thesis by (metis prefix_order.trans)
      qed
    qed
  qed
qed

lemma executeWithRetry_fetchedAfresh:
  assumes gov: "governed operation" and pos: "0 < retries"
  shows "fetchedAfresh s (snd (executeWithRetry operation retries s))"
proof -
  obtain r s' where o: "operation 1 (pace s) = (r, s')" by (cases "operation 1 (pace s)")
  have js': "journal s' = journal (pace s)" using governedD(5) [OF gov o] .
  have one: "(1::nat) \<le> retries" using pos by simp
  show ?thesis
  proof (cases r)
    case (Inr v)
    then show ?thesis
      using o one js' by (simp add: executeWithRetry_def attempts_value fetchedAfresh_def pace_journal)
  next
    case (Inl e)
    show ?thesis
    proof (cases "rateLimited e \<and> 1 < retries")
      case False
      then show ?thesis
        using o one js' Inl
        by (simp add: executeWithRetry_def attempts_throw fetchedAfresh_def pace_journal)
    next
      case yes: True
      let ?n = "setTimeout (retryDelay s' * int 1)
                  (jot (BackedOff (retryDelay s' * int 1)) (jot (Warned 1) s'))"
      have eq: "attempts operation retries 1 s = attempts operation retries (Suc 1) ?n"
        using yes o Inl by (intro attempts_retry) auto
      have "prefix (journal ?n) (journal (snd (attempts operation retries (Suc 1) ?n)))"
        using attempts_journal_prefix [OF gov] .
      moreover have "prefix (journal (pace s)) (journal ?n)"
        by (auto simp add: js' prefix_def)
      ultimately have "prefix (journal (pace s)) (journal (snd (attempts operation retries 1 s)))"
        unfolding eq by (rule prefix_order.trans [rotated])
      then show ?thesis
        by (simp add: executeWithRetry_def fetchedAfresh_def pace_journal)
    qed
  qed
qed

lemma later_fields [simp]:
  "clock (later d s) = clock s + d"
  "latestBlock (later d s) = latestBlock s"
  "greeting (later d s) = greeting s"
  "maxRetries (later d s) = maxRetries s"
  "journal (later d s) = journal s"
  by (simp_all add: later_def)

lemma fetchBlockNumber_put:
  assumes "outcome (rpc k) = Inr n"
  shows "latestBlock (snd (fetchBlockNumber rpc k s)) =
           \<lparr> cvalue = Some n, timestamp = clock (snd (fetchBlockNumber rpc k s)),
             ttl = ttl (latestBlock s) \<rparr>"
    and "maxRetries (snd (fetchBlockNumber rpc k s)) = maxRetries s"
  using assms by (simp_all add: fetchBlockNumber_def await_def)

lemma fetchGreeting_put:
  assumes "outcome (rpc k) = Inr text"
  shows "greeting (snd (fetchGreeting rpc k s)) =
           \<lparr> cvalue = Some text, timestamp = clock (snd (fetchGreeting rpc k s)),
             ttl = ttl (greeting s) \<rparr>"
    and "maxRetries (snd (fetchGreeting rpc k s)) = maxRetries s"
  using assms by (simp_all add: fetchGreeting_def await_def)

lemma fetchedAfresh_changes: "fetchedAfresh s s' \<Longrightarrow> s' \<noteq> s"
proof
  assume f: "fetchedAfresh s s'" and "s' = s"
  then have "prefix (journal s @ pacing s @ [Invoked (clock (pace s))]) (journal s)"
    by (simp add: fetchedAfresh_def)
  then have "length (journal s @ pacing s @ [Invoked (clock (pace s))]) \<le> length (journal s)"
    by (rule prefix_length_le)
  then show False by simp
qed

lemma genesisService_facts:
  "maxRetries genesisService = 3"
  "cvalue (greeting genesisService) = Some []"
  "clock genesisService - timestamp (greeting genesisService) = 100"
  "ttl (greeting genesisService) = 5000"
  "cvalue (latestBlock genesisService) = Some 0"
  "clock genesisService - timestamp (latestBlock genesisService) = 240"
  "ttl (latestBlock genesisService) = 2000"
  by (simp_all add: genesisService_def afterGreetingPut_def afterBlockPut_def later_def
      fetchGreeting_def fetchBlockNumber_def await_def emptyGreeting_def genesisProvider_def
      MonadService_def)

lemma emptyGreetingService_facts:
  "maxRetries emptyGreetingService = 3"
  "cvalue (greeting emptyGreetingService) = Some []"
  "clock emptyGreetingService - timestamp (greeting emptyGreetingService) = 1"
  "ttl (greeting emptyGreetingService) = 5000"
  by (simp_all add: emptyGreetingService_def afterGreetingPut_def later_def
      fetchGreeting_def await_def emptyGreeting_def MonadService_def)

lemma getData_falsy:
  assumes "cvalue (greeting s) = Some []" and "0 < maxRetries s"
  shows "getData rpc s = executeWithRetry (fetchGreeting rpc) (maxRetries s) s"
    and "fetchedAfresh s (snd (getData rpc s))"
  using assms
  by (simp_all add: getData_def truthyString_def executeWithRetry_fetchedAfresh
      governed_fetchGreeting)

lemma executeWithRetry_first_value:
  assumes "0 < retries" and "operation 1 (pace s) = (Inr v, s')"
  shows "executeWithRetry operation retries s = (Inr (Some v), s')"
  unfolding executeWithRetry_def using assms by (intro attempts_value) auto

lemma executeWithRetry_first_error:
  assumes "0 < retries" and "operation 1 (pace s) = (Inl e, s')" and "\<not> rateLimited e"
  shows "executeWithRetry operation retries s = (Inl e, s')"
  unfolding executeWithRetry_def using assms by (intro attempts_throw) auto

lemma fetchBlockNumber_first:
  "outcome (rpc 1) = Inr n \<Longrightarrow>
     fetchBlockNumber rpc 1 (pace s) = (Inr (toString n), blockStored (rpc 1) n s)"
  "outcome (rpc 1) = Inl e \<Longrightarrow> fetchBlockNumber rpc 1 (pace s) = (Inl e, arrived (rpc 1) s)"
  by (simp_all add: fetchBlockNumber_def await_def blockStored_def arrived_def)

lemma fetchGreeting_first:
  "outcome (call 1) = Inr text \<Longrightarrow>
     fetchGreeting call 1 (pace s) = (Inr text, greetingStored (call 1) text s)"
  "outcome (call 1) = Inl e \<Longrightarrow> fetchGreeting call 1 (pace s) = (Inl e, arrived (call 1) s)"
  by (simp_all add: fetchGreeting_def await_def greetingStored_def arrived_def)

lemma getLatestBlockNumber_fresh:
  assumes pos: "0 < maxRetries s"
    and miss: "\<not> (truthyNumber (cvalue (latestBlock s)) \<and>
            clock s - timestamp (latestBlock s) < ttl (latestBlock s))"
  shows "outcome (rpc 1) = Inr n \<Longrightarrow>
           getLatestBlockNumber rpc s = (Inr (Some (toString n)), blockStored (rpc 1) n s)"
    and "outcome (rpc 1) = Inl e \<Longrightarrow> \<not> rateLimited e \<Longrightarrow>
           getLatestBlockNumber rpc s = (Inl e, arrived (rpc 1) s)"
    and "fetchedAfresh s (snd (getLatestBlockNumber rpc s))"
proof -
  have eq: "getLatestBlockNumber rpc s = executeWithRetry (fetchBlockNumber rpc) (maxRetries s) s"
    unfolding getLatestBlockNumber_def using miss by (rule if_not_P)
  show "outcome (rpc 1) = Inr n \<Longrightarrow>
           getLatestBlockNumber rpc s = (Inr (Some (toString n)), blockStored (rpc 1) n s)"
    unfolding eq using pos fetchBlockNumber_first(1) by (rule executeWithRetry_first_value)
  show "outcome (rpc 1) = Inl e \<Longrightarrow> \<not> rateLimited e \<Longrightarrow>
           getLatestBlockNumber rpc s = (Inl e, arrived (rpc 1) s)"
    unfolding eq using pos fetchBlockNumber_first(2) by (rule executeWithRetry_first_error)
  show "fetchedAfresh s (snd (getLatestBlockNumber rpc s))"
    unfolding eq using governed_fetchBlockNumber pos by (rule executeWithRetry_fetchedAfresh)
qed

lemma getData_fresh:
  assumes pos: "0 < maxRetries s"
    and miss: "\<not> (truthyString (cvalue (greeting s)) \<and>
            clock s - timestamp (greeting s) < ttl (greeting s))"
  shows "outcome (call 1) = Inr text \<Longrightarrow>
           getData call s = (Inr (Some text), greetingStored (call 1) text s)"
    and "outcome (call 1) = Inl e \<Longrightarrow> \<not> rateLimited e \<Longrightarrow>
           getData call s = (Inl e, arrived (call 1) s)"
    and "fetchedAfresh s (snd (getData call s))"
proof -
  have eq: "getData call s = executeWithRetry (fetchGreeting call) (maxRetries s) s"
    unfolding getData_def using miss by (rule if_not_P)
  show "outcome (call 1) = Inr text \<Longrightarrow>
           getData call s = (Inr (Some text), greetingStored (call 1) text s)"
    unfolding eq using pos fetchGreeting_first(1) by (rule executeWithRetry_first_value)
  show "outcome (call 1) = Inl e \<Longrightarrow> \<not> rateLimited e \<Longrightarrow>
           getData call s = (Inl e, arrived (call 1) s)"
    unfolding eq using pos fetchGreeting_first(2) by (rule executeWithRetry_first_error)
  show "fetchedAfresh s (snd (getData call s))"
    unfolding eq using governed_fetchGreeting pos by (rule executeWithRetry_fetchedAfresh)
qed

lemma stored_fields [simp]:
  "latestBlock (blockStored r n s) =
     \<lparr> cvalue = Some n, timestamp = clock (blockStored r n s), ttl = ttl (latestBlock s) \<rparr>"
  "greeting (greetingStored r' text s) =
     \<lparr> cvalue = Some text, timestamp = clock (greetingStored r' text s), ttl = ttl (greeting s) \<rparr>"
  "clock (blockStored r n s) = clock (pace s) + int (latency r)"
  "clock (greetingStored r' text s) = clock (pace s) + int (latency r')"
  by (simp_all add: blockStored_def greetingStored_def arrived_def)

section \<open>The block poller: proofs\<close>

lemma fold_resWrite:
  "written (fold (\<lambda>client. resWrite client chunk) cs s) = written s @ map (\<lambda>client. (client, chunk)) cs"
  "sseClients (fold (\<lambda>client. resWrite client chunk) cs s) = sseClients s"
  "mcpClients (fold (\<lambda>client. resWrite client chunk) cs s) = mcpClients s"
  "newBlockListeners (fold (\<lambda>client. resWrite client chunk) cs s) = newBlockListeners s"
  "blockPollingInterval (fold (\<lambda>client. resWrite client chunk) cs s) = blockPollingInterval s"
  "lastBlock (fold (\<lambda>client. resWrite client chunk) cs s) = lastBlock s"
  "consecutiveErrors (fold (\<lambda>client. resWrite client chunk) cs s) = consecutiveErrors s"
  "restarts (fold (\<lambda>client. resWrite client chunk) cs s) = restarts s"
  "logged (fold (\<lambda>client. resWrite client chunk) cs s) = logged s"
  by (induction cs arbitrary: s; simp add: resWrite_def)+

lemma fold_resWrite_bookkeeping:
  "armed (fold (\<lambda>client. resWrite client chunk) cs s) = armed s"
  "tasks (fold (\<lambda>client. resWrite client chunk) cs s) = tasks s"
  "spawned (fold (\<lambda>client. resWrite client chunk) cs s) = spawned s"
  "strays (fold (\<lambda>client. resWrite client chunk) cs s) = strays s"
  by (induction cs arbitrary: s; simp add: resWrite_def)+

lemma writeAll_fields [simp]:
  "written (writeAll chunk s) = written s @ map (\<lambda>client. (client, chunk)) (sseClients s)"
  "sseClients (writeAll chunk s) = sseClients s"
  "mcpClients (writeAll chunk s) = mcpClients s"
  "newBlockListeners (writeAll chunk s) = newBlockListeners s"
  "blockPollingInterval (writeAll chunk s) = blockPollingInterval s"
  "lastBlock (writeAll chunk s) = lastBlock s"
  "consecutiveErrors (writeAll chunk s) = consecutiveErrors s"
  "restarts (writeAll chunk s) = restarts s"
  "logged (writeAll chunk s) = logged s"
  by (simp_all add: writeAll_def fold_resWrite)

lemma pollDone_fields [simp]:
  "written (pollDone s) = written s"
  "sseClients (pollDone s) = sseClients s"
  "mcpClients (pollDone s) = mcpClients s"
  "newBlockListeners (pollDone s) = newBlockListeners s"
  "blockPollingInterval (pollDone s) = Some 2000"
  "lastBlock (pollDone s) = lastBlock s"
  "consecutiveErrors (pollDone s) = 0"
  "restarts (pollDone s) = restarts s"
  "logged (pollDone s) = logged s"
  by (simp_all add: pollDone_def schedulePoll_def POLLING_INTERVAL_def)

lemma pollFailed_fields [simp]:
  "written (pollFailed e s) = written s @
     (if 3 \<le> consecutiveErrors s + 1
      then map (\<lambda>client. (client, pollErrorFrame)) (sseClients s) else [])"
  "sseClients (pollFailed e s) = sseClients s"
  "mcpClients (pollFailed e s) = mcpClients s"
  "newBlockListeners (pollFailed e s) = newBlockListeners s"
  "blockPollingInterval (pollFailed e s) = Some 5000"
  "lastBlock (pollFailed e s) = lastBlock s"
  "consecutiveErrors (pollFailed e s) = consecutiveErrors s + 1"
  "restarts (pollFailed e s) = restarts s"
  "logged (pollFailed e s) = logged s @ [LogError ''Error in SSE block polling:'' (message e)]"
  by (simp_all add: pollFailed_def schedulePoll_def Let_def logger_def
      MAX_CONSECUTIVE_ERRORS_def ERROR_POLLING_INTERVAL_def)

lemma announce_fields [simp]:
  "written (announce b currentBlock s) =
     written s @ map (\<lambda>client. (client, newBlockFrame b)) (sseClients s)"
  "sseClients (announce b currentBlock s) = sseClients s"
  "mcpClients (announce b currentBlock s) = mcpClients s"
  "newBlockListeners (announce b currentBlock s) = newBlockListeners s"
  "blockPollingInterval (announce b currentBlock s) = blockPollingInterval s"
  "lastBlock (announce b currentBlock s) = Some currentBlock"
  "consecutiveErrors (announce b currentBlock s) = consecutiveErrors s"
  "restarts (announce b currentBlock s) = restarts s"
  "logged (announce b currentBlock s) =
     logged s @ [LogInfo ''New block broadcast to SSE clients:'']"
  by (simp_all add: announce_def logger_def)

lemma poll_latest_failed:
  "latest obs = Inl e \<Longrightarrow> poll obs s = pollFailed e s"
  by (simp add: poll_def pollResumed_def)

lemma poll_not_greater:
  "\<lbrakk>lastBlock s = Some (toString l); latest obs = Inr n; n \<le> l\<rbrakk> \<Longrightarrow> poll obs s = pollDone s"
  by (simp add: poll_def pollResumed_def pollFetched_def BigIntOf_def BigInt_toString Let_def)

lemma poll_greater:
  "\<lbrakk>lastBlock s = Some (toString l); latest obs = Inr n; l < n\<rbrakk> \<Longrightarrow>
     poll obs s =
       (case getBlock obs (toString n) of
          Inl e \<Rightarrow> pollFailed e s
        | Inr None \<Rightarrow> pollDone s
        | Inr (Some b) \<Rightarrow> pollDone (announce b (toString n) s))"
  by (simp add: poll_def pollResumed_def pollFetched_def BigIntOf_def BigInt_toString Let_def)

lemma toString_100: "toString 100 = ''100''"
  by (simp add: toString.simps)

lemma toString_101: "toString 101 = ''101''"
  by (simp add: toString.simps)

lemma schedulePoll_bookkeeping [simp]:
  "armed (schedulePoll delay s) = True"
  "tasks (schedulePoll delay s) = tasks s"
  "spawned (schedulePoll delay s) = spawned s"
  "initialRetries (schedulePoll delay s) = initialRetries s"
  by (simp_all add: schedulePoll_def)

lemma pollDone_bookkeeping [simp]:
  "armed (pollDone s) = True"
  "tasks (pollDone s) = tasks s"
  "spawned (pollDone s) = spawned s"
  "strays (pollDone s) =
     (case blockPollingInterval s of
        Some held \<Rightarrow> if armed s then strays s @ [held] else strays s
      | None \<Rightarrow> strays s)"
  by (simp_all add: pollDone_def schedulePoll_def split: option.splits)

lemma announce_bookkeeping [simp]:
  "armed (announce b currentBlock s) = armed s"
  "tasks (announce b currentBlock s) = tasks s"
  "spawned (announce b currentBlock s) = spawned s"
  "strays (announce b currentBlock s) = strays s"
  by (simp_all add: announce_def logger_def writeAll_def fold_resWrite_bookkeeping)

section \<open>The WebSocket service: proofs\<close>

lemma fold_sendTo:
  "sent (fold (sendTo payload) cs s) = sent s @ map (\<lambda>c. (socket c, payload)) (filter accepts cs)"
  "clients (fold (sendTo payload) cs s) = clients s"
  "subscription (fold (sendTo payload) cs s) = subscription s"
  "wss (fold (sendTo payload) cs s) = wss s"
  "wsLogged (fold (sendTo payload) cs s) = wsLogged s @ sendFailures cs"
  by (induction cs arbitrary: s;
      simp add: sendTo_def send_def accepts_def sendFailures_def wsLogger_def
        split: option.splits)+

lemma broadcast_fields:
  "sent (broadcast msg s) =
     sent s @ (if wss s then map (\<lambda>c. (socket c, stringify msg)) (filter accepts (clients s)) else [])"
  "clients (broadcast msg s) = clients s"
  "subscription (broadcast msg s) = subscription s"
  "wss (broadcast msg s) = wss s"
  by (simp_all add: broadcast_def fold_sendTo wsLogger_def)

lemma handleNewBlock_fields [simp]:
  "sent (handleNewBlock b s) =
     sent s @ (if wss s then map (\<lambda>c. (socket c, newBlockText b)) (filter accepts (clients s)) else [])"
  "clients (handleNewBlock b s) = clients s"
  "subscription (handleNewBlock b s) = subscription s"
  "wss (handleNewBlock b s) = wss s"
  by (simp_all add: handleNewBlock_def broadcast_fields wsLogger_def newBlockText_def)

lemma stringGreater_irrefl: "\<not> stringGreater x x"
  by (induction x) simp_all

lemma stringGreater_toString:
  assumes "stringGreater (toString n) (toString l)" and "l \<le> n"
  shows "l < n"
proof (rule ccontr)
  assume "\<not> l < n"
  then have "l = n" using assms(2) by simp
  then show False using assms(1) stringGreater_irrefl by simp
qed

section \<open>Both polling trackers: the events of a run\<close>

lemma received_append [simp]: "received who (a @ b) = received who a @ received who b"
  by (simp add: received_def)

lemma received_Nil [simp]: "received who [] = []"
  by (simp add: received_def)

lemma received_one:
  "distinct ids \<Longrightarrow> received who (map (\<lambda>i. (i, t)) ids) = (if who \<in> set ids then [t] else [])"
  by (induction ids) (auto simp add: received_def)

lemma fanout_simps [simp]:
  "fanout ids [] = []"
  "fanout ids (t # ts) = map (\<lambda>i. (i, t)) ids @ fanout ids ts"
  "fanout ids (ts @ us) = fanout ids ts @ fanout ids us"
  by (simp_all add: fanout_def)

lemma received_fanout:
  "distinct ids \<Longrightarrow> received who (fanout ids ts) = (if who \<in> set ids then ts else [])"
  by (induction ts) (simp_all add: received_one)

lemma risingAbove_Nil [simp]: "risingAbove l []"
  by (simp add: risingAbove_def)

lemma risingAbove_single [simp]: "risingAbove l [b] = (l < number b)"
  by (simp add: risingAbove_def)

lemma risingAbove_append:
  assumes "risingAbove l bs" and "list_all (\<lambda>b. number b \<le> m) bs" and "risingAbove m cs" and "l \<le> m"
  shows "risingAbove l (bs @ cs)"
  using assms
  by (fastforce simp add: risingAbove_def sorted_wrt_append list_all_iff)

lemma poll_step:
  assumes "answersRequest obs" and "lastBlock s = Some (toString l)"
  shows "\<exists>fs bs l'. written (poll obs s) = written s @ fanout (sseClients s) fs \<and>
           sseClients (poll obs s) = sseClients s \<and>
           lastBlock (poll obs s) = Some (toString l') \<and> l \<le> l' \<and>
           filter (\<lambda>f. f \<noteq> pollErrorFrame) fs = map newBlockFrame bs \<and>
           risingAbove l bs \<and> list_all (\<lambda>b. number b \<le> l') bs"
proof (cases "latest obs")
  case (Inl e)
  have "poll obs s = pollFailed e s" using Inl by (rule poll_latest_failed)
  then show ?thesis
    using assms(2)
    by (intro exI [of _ "if 3 \<le> consecutiveErrors s + 1 then [pollErrorFrame] else []"]
        exI [of _ "[]"] exI [of _ l]) simp
next
  case (Inr n)
  show ?thesis
  proof (cases "l < n")
    case False
    then have "poll obs s = pollDone s" using poll_not_greater [OF assms(2) Inr] by simp
    then show ?thesis
      using assms(2) by (intro exI [of _ "[]"] exI [of _ l]) simp
  next
    case True
    note p = poll_greater [OF assms(2) Inr True]
    show ?thesis
    proof (cases "getBlock obs (toString n)")
      case (Inl e)
      then have "poll obs s = pollFailed e s" using p by simp
      then show ?thesis
        using assms(2)
        by (intro exI [of _ "if 3 \<le> consecutiveErrors s + 1 then [pollErrorFrame] else []"]
            exI [of _ "[]"] exI [of _ l]) simp
    next
      case answer: (Inr a)
      show ?thesis
      proof (cases a)
        case None
        then have "poll obs s = pollDone s" using p answer by simp
        then show ?thesis
          using assms(2) by (intro exI [of _ "[]"] exI [of _ l]) simp
      next
        case (Some b)
        then have eq: "poll obs s = pollDone (announce b (toString n) s)" using p answer by simp
        have nb: "number b = n"
          using assms(1) Inr answer Some by (simp add: answersRequest_def)
        show ?thesis
          using True nb
          by (intro exI [of _ "[newBlockFrame b]"] exI [of _ "[b]"] exI [of _ n])
             (simp add: eq newBlockFrame_not_error)
      qed
    qed
  qed
qed

lemma polls_run:
  assumes "\<forall>obs\<in>set obss. answersRequest obs" and "lastBlock s = Some (toString l)"
  shows "\<exists>fs bs. written (fold poll obss s) = written s @ fanout (sseClients s) fs \<and>
           filter (\<lambda>f. f \<noteq> pollErrorFrame) fs = map newBlockFrame bs \<and> risingAbove l bs"
  using assms
proof (induction obss arbitrary: s l)
  case Nil
  show ?case by (intro exI [of _ "[]"]) simp
next
  case (Cons obs obss)
  from Cons.prems obtain fs1 bs1 l1 where
    w1: "written (poll obs s) = written s @ fanout (sseClients s) fs1"
    and c1: "sseClients (poll obs s) = sseClients s"
    and l1: "lastBlock (poll obs s) = Some (toString l1)" "l \<le> l1"
    and f1: "filter (\<lambda>f. f \<noteq> pollErrorFrame) fs1 = map newBlockFrame bs1"
    and r1: "risingAbove l bs1" "list_all (\<lambda>b. number b \<le> l1) bs1"
    using poll_step [of obs s l] by auto
  from Cons.prems have "\<forall>obs\<in>set obss. answersRequest obs" by simp
  from Cons.IH [OF this l1(1)] obtain fs2 bs2 where
    w2: "written (fold poll obss (poll obs s)) =
           written (poll obs s) @ fanout (sseClients (poll obs s)) fs2"
    and f2: "filter (\<lambda>f. f \<noteq> pollErrorFrame) fs2 = map newBlockFrame bs2"
    and r2: "risingAbove l1 bs2"
    by blast
  have "risingAbove l (bs1 @ bs2)" using r1 r2 l1(2) by (rule risingAbove_append)
  then show ?case
    using w1 w2 c1 f1 f2
    by (intro exI [of _ "fs1 @ fs2"] exI [of _ "bs1 @ bs2"]) simp
qed

lemma intervalTick_step:
  assumes "answersRequest obs" and "subscription s = Some (Polling (toString l))"
    and "sorted (l # heads [obs])"
  shows "\<exists>bs l'. sent (intervalTick obs s) =
             sent s @ (if wss s
                       then fanout (map socket (filter accepts (clients s))) (map newBlockText bs)
                       else []) \<and>
           clients (intervalTick obs s) = clients s \<and>
           wss (intervalTick obs s) = wss s \<and>
           subscription (intervalTick obs s) = Some (Polling (toString l')) \<and>
           l \<le> l' \<and> (case latest obs of Inl e \<Rightarrow> l' = l | Inr n \<Rightarrow> l' \<le> n) \<and>
           risingAbove l bs \<and> list_all (\<lambda>b. number b \<le> l') bs"
proof (cases "latest obs")
  case (Inl e)
  then show ?thesis
    using assms(2)
    by (intro exI [of _ "[]"] exI [of _ l]) (simp add: intervalTick_def wsLogger_def heads_def)
next
  case (Inr n)
  then have ln: "l \<le> n" using assms(3) by (simp add: heads_def)
  show ?thesis
  proof (cases "stringGreater (toString n) (toString l)")
    case False
    then show ?thesis
      using assms(2) Inr ln
      by (intro exI [of _ "[]"] exI [of _ l]) (simp add: intervalTick_def heads_def)
  next
    case True
    then have less: "l < n" using ln by (rule stringGreater_toString)
    show ?thesis
    proof (cases "getBlock obs (toString n)")
      case (Inl e)
      then show ?thesis
        using assms(2) Inr True ln
        by (intro exI [of _ "[]"] exI [of _ l])
           (simp add: intervalTick_def wsLogger_def heads_def)
    next
      case answer: (Inr a)
      show ?thesis
      proof (cases a)
        case None
        then show ?thesis
          using assms(2) Inr True ln answer
          by (intro exI [of _ "[]"] exI [of _ l]) (simp add: intervalTick_def heads_def)
      next
        case (Some b)
        have nb: "number b = n"
          using assms(1) Inr answer Some by (simp add: answersRequest_def)
        show ?thesis
          using assms(2) Inr True less answer Some nb
          by (intro exI [of _ "[b]"] exI [of _ n])
             (simp add: intervalTick_def heads_def comp_def)
      qed
    qed
  qed
qed


lemma sorted_heads_rest:
  assumes "sorted (l # heads (obs # obss))"
    and "case latest obs of Inl e \<Rightarrow> l' = l | Inr n \<Rightarrow> l' \<le> n"
  shows "sorted (l' # heads obss)"
proof (cases "latest obs")
  case (Inl e)
  then show ?thesis using assms by (simp add: heads_def)
next
  case (Inr n)
  then have "sorted (n # heads obss)" and "l' \<le> n" using assms by (simp_all add: heads_def)
  then show ?thesis by (meson order_trans sorted_simps(2))
qed

lemma intervalTick_run:
  assumes "\<forall>obs\<in>set obss. answersRequest obs"
    and "subscription s = Some (Polling (toString l))"
    and "sorted (l # heads obss)"
  shows "\<exists>bs. sent (fold intervalTick obss s) =
             sent s @ (if wss s
                       then fanout (map socket (filter accepts (clients s))) (map newBlockText bs)
                       else []) \<and>
           risingAbove l bs"
  using assms
proof (induction obss arbitrary: s l)
  case Nil
  show ?case by (intro exI [of _ "[]"]) simp
next
  case (Cons obs obss)
  have first: "sorted (l # heads [obs])"
    using Cons.prems(3) by (simp add: heads_def split: sum.splits)
  from Cons.prems first obtain bs1 l1 where
    w1: "sent (intervalTick obs s) =
           sent s @ (if wss s
                     then fanout (map socket (filter accepts (clients s))) (map newBlockText bs1)
                     else [])"
    and c1: "clients (intervalTick obs s) = clients s" "wss (intervalTick obs s) = wss s"
    and l1: "subscription (intervalTick obs s) = Some (Polling (toString l1))" "l \<le> l1"
    and h1: "case latest obs of Inl e \<Rightarrow> l1 = l | Inr n \<Rightarrow> l1 \<le> n"
    and r1: "risingAbove l bs1" "list_all (\<lambda>b. number b \<le> l1) bs1"
    using intervalTick_step [of obs s l] by auto
  have rest: "sorted (l1 # heads obss)" using Cons.prems(3) h1 by (rule sorted_heads_rest)
  from Cons.prems have "\<forall>obs\<in>set obss. answersRequest obs" by simp
  from Cons.IH [OF this l1(1) rest] obtain bs2 where
    w2: "sent (fold intervalTick obss (intervalTick obs s)) =
           sent (intervalTick obs s) @
             (if wss (intervalTick obs s)
              then fanout (map socket (filter accepts (clients (intervalTick obs s))))
                     (map newBlockText bs2)
              else [])"
    and r2: "risingAbove l1 bs2"
    by blast
  have "risingAbove l (bs1 @ bs2)" using r1 r2 l1(2) by (rule risingAbove_append)
  then show ?case
    using w1 w2 c1
    by (intro exI [of _ "bs1 @ bs2"]) simp
qed

section \<open>The concrete inputs evaluated\<close>

lemma toString_103: "toString 103 = ''103''"
  by (simp add: toString.simps)

lemma answersRequest_observe:
  "answersRequest (observe 100)" "answersRequest (observe 102)" "answersRequest (observe 103)"
  "answersRequest outage"
  by (simp_all add: answersRequest_def observe_def outage_def chain_def toString_100
      toString_102 toString_103 block102_def block103_def)

lemma headsSeen_facts:
  "\<forall>obs\<in>set headsSeen. answersRequest obs" "sorted (100 # heads headsSeen)"
proof -
  show "\<forall>obs\<in>set headsSeen. answersRequest obs"
    by (simp add: headsSeen_def answersRequest_observe)
  show "sorted (100 # heads headsSeen)"
    by (simp add: headsSeen_def heads_def observe_def outage_def)
qed

lemma poll_observe_same:
  "lastBlock s = Some (toString n) \<Longrightarrow> poll (observe n) s = pollDone s"
  by (rule poll_not_greater [where n = n and l = n]) (simp_all add: observe_def)

lemmas server_defs =
  run_def startServer_def initialServer_def sseConnect_def sseClose_def mcpConnect_def
  mcpClose_def sendInitialData_def initialDataFailed_def resWrite_def logger_def setAdd_def
  setDelete_def startBlockPolling_def stopBlockPolling_def baselineResolved_def
  headResolved_def blockResolved_def pollResumed_def pollFetched_def spawn_def retire_def
  started_def restartTimer_def pollTimerFires_def strayTimerFires_def BigIntOf_def
  BigInt_toString Let_def

lemma tracking100_facts:
  "lastBlock tracking100 = Some (toString 100)"
  "sseClients tracking100 = [1]"
  "blockPollingInterval tracking100 = Some 2000"
  "consecutiveErrors tracking100 = 0"
  "armed tracking100"
  by (simp_all add: tracking100_def firstSseClient_def greeted_def server_defs)

lemma connected_facts:
  "clients connected = [deafClient, listener]" "wss connected"
  by (simp_all add: connected_def onConnection_def initialize_def WebSocketService_def
      wsLogger_def addClient_def send_def listener_def deafClient_def Let_def)

lemma wsTracking100_facts:
  "subscription wsTracking100 = Some (Polling (toString 100))"
  "clients wsTracking100 = [deafClient, listener]" "wss wsTracking100"
  by (simp_all add: wsTracking100_def startPolling_def wsLogger_def connected_facts toString_100)

lemma wsSubscribed_facts:
  "clients wsSubscribed = [deafClient, listener]" "wss wsSubscribed"
  by (simp_all add: wsSubscribed_def startSubscription_def wsLogger_def connected_facts)

lemma accepts_examples: "accepts listener" "\<not> accepts deafClient"
  by (simp_all add: accepts_def listener_def deafClient_def)

lemma observe_facts:
  "latest (observe n) = Inr n" "getBlock (observe n) = chain"
  "latest outage = Inl (Error ''connect ECONNREFUSED'')"
  "chain ''102'' = Inr (Some block102)" "number block102 = 102"
  by (simp_all add: observe_def outage_def chain_def block102_def)

lemma tracking100_more:
  "mcpClients tracking100 = []" "newBlockListeners tracking100 = []"
  by (simp_all add: tracking100_def firstSseClient_def greeted_def server_defs)

lemma mcpConnect_while_polling:
  assumes "blockPollingInterval s = Some d"
  shows "sseClients (mcpConnect res now s) = sseClients s"
    "mcpClients (mcpConnect res now s) = setAdd res (mcpClients s)"
    "newBlockListeners (mcpConnect res now s) = newBlockListeners s @ [res]"
    "blockPollingInterval (mcpConnect res now s) = Some d"
    "lastBlock (mcpConnect res now s) = lastBlock s"
    "armed (mcpConnect res now s) = armed s"
    "written (mcpConnect res now s) =
       written s @ [(res, dataFrame (stringify (initMessage now)))]"
  using assms
  by (simp_all add: mcpConnect_def Let_def resWrite_def logger_def startBlockPolling_def)

lemma mcpClose_last:
  assumes "setDelete res (mcpClients s) = []"
  shows "sseClients (mcpClose res s) = sseClients s"
    "mcpClients (mcpClose res s) = []"
    "blockPollingInterval (mcpClose res s) = None"
    "blockPollingInterval s \<noteq> None \<Longrightarrow> \<not> armed (mcpClose res s)"
  using assms
  by (simp_all add: mcpClose_def Let_def logger_def stopBlockPolling_def)

lemma first_sse_client:
  "http (run (firstSseClient @ events) startServer) =
     http (run events \<lparr> http = tracking100, ws = initialize WebSocketService \<rparr>)"
  by (simp add: tracking100_def firstSseClient_def run_def startServer_def)

lemma mcpCameAndWent_http:
  "sseClients (http mcpCameAndWent) = [1]"
  "mcpClients (http mcpCameAndWent) = []"
  "blockPollingInterval (http mcpCameAndWent) = None"
  "\<not> armed (http mcpCameAndWent)"
proof -
  let ?s1 = "mcpConnect 2 1700000000 tracking100"
  note m = mcpConnect_while_polling [OF tracking100_facts(3), of 2 1700000000]
  have h: "http mcpCameAndWent = mcpClose 2 ?s1"
    unfolding mcpCameAndWent_def first_sse_client by (simp add: run_def)
  have last: "setDelete 2 (mcpClients ?s1) = []"
    by (simp add: m tracking100_more setAdd_def setDelete_def)
  show "sseClients (http mcpCameAndWent) = [1]"
    unfolding h by (simp add: mcpClose_last [OF last] m tracking100_facts)
  show "mcpClients (http mcpCameAndWent) = []"
    unfolding h by (rule mcpClose_last [OF last])
  show "blockPollingInterval (http mcpCameAndWent) = None"
    unfolding h by (rule mcpClose_last [OF last])
  show "\<not> armed (http mcpCameAndWent)"
    unfolding h by (rule mcpClose_last(4) [OF last]) (simp add: m)
qed

lemma threeKinds_parts:
  "http threeKinds = mcpConnect 2 1700000000 tracking100"
  "ws threeKinds = snd (onConnection listener 1700000000 (initialize WebSocketService))"
  unfolding threeKinds_def
  by (simp_all add: first_sse_client) (simp_all add: run_def firstSseClient_def startServer_def)

lemma block102_frame:
  \<open>newBlockFrame block102 =
     ''data: {"type":"newBlock","data":{"number":"102","hash":"0xabc","timestamp":"1700000000","gasUsed":"21000","miner":"0xfee","baseFeePerGas":"0","difficulty":"0","totalDifficulty":"0"}}''
       @ [CHR 0x0A, CHR 0x0A]\<close>
  by (simp add: newBlockFrame_def blockInfo_def block102_def dataFrame_def quoted_plain
      orZero_def toString.simps)

lemma block102_mcp_frame:
  \<open>dataFrame (stringify (blockMsg block102)) =
     ''data: {"jsonrpc":"2.0","method":"block/new","params":{"block":{"number":"102","hash":"0xabc","timestamp":"1700000000","transactions":2}}}''
       @ [CHR 0x0A, CHR 0x0A]\<close>
  by (simp add: blockMsg_def block102_def dataFrame_def quoted_plain toString.simps)

lemma block102_event:
  \<open>stringify (newBlockEvent block102) =
     ''{"type":"newBlock","data":{"number":"102","hash":"0xabc","timestamp":"1700000000","gasUsed":"21000","miner":"0xfee"}}''\<close>
  by (simp add: newBlockEvent_def headerInfo_def block102_def quoted_plain orZero_def
      toString.simps)

lemma poll_writes_to_sse_only:
  "fst ` set (drop (length (written s)) (written (poll obs s))) \<subseteq> set (sseClients s)"
  by (auto simp add: poll_def pollResumed_def pollFetched_def Let_def
      split: sum.splits option.splits if_splits)

lemma sent_only_on_connection:
  "sent (ws (handle e p)) = sent (ws p) \<or> (\<exists>client now. e = WsConnection client now)"
  by (cases e) (simp_all add: onClose_def onError_def wsLogger_def)

lemma chain_facts:
  "chain (toString 102) = Inr (Some block102)"
  "chain (toString 103) = Inr (Some block103)"
  by (simp_all add: chain_def toString_102 toString_103)

lemma headsSeen_written:
  "written (fold poll headsSeen tracking100) =
     written tracking100 @ [(1, newBlockFrame block102), (1, newBlockFrame block103)]"
proof -
  let ?a = "pollDone tracking100"
  let ?b = "pollDone (announce block102 (toString 102) ?a)"
  let ?c = "pollDone ?b"
  let ?d = "pollFailed (Error ''connect ECONNREFUSED'') ?c"
  let ?e = "pollDone (announce block103 (toString 103) ?d)"
  have a: "poll (observe 100) tracking100 = ?a"
    by (rule poll_observe_same) (rule tracking100_facts)
  have la: "lastBlock ?a = Some (toString 100)" by (simp add: tracking100_facts)
  have b: "poll (observe 102) ?a = ?b"
    using poll_greater [OF la, of "observe 102" 102] by (simp add: observe_facts chain_facts)
  have lb: "lastBlock ?b = Some (toString 102)" by simp
  have c: "poll (observe 102) ?b = ?c"
    by (rule poll_observe_same) (rule lb)
  have d: "poll outage ?c = ?d"
    by (rule poll_latest_failed) (rule observe_facts)
  have ld: "lastBlock ?d = Some (toString 102)" by simp
  have e: "poll (observe 103) ?d = ?e"
    using poll_greater [OF ld, of "observe 103" 103] by (simp add: observe_facts chain_facts)
  have "fold poll headsSeen tracking100 = ?e"
    by (simp add: headsSeen_def a b c d e)
  then show ?thesis by (simp add: tracking100_facts)
qed

lemma stringGreater_examples:
  "stringGreater ''102'' ''100''" "\<not> stringGreater ''102'' ''102''"
  "stringGreater ''103'' ''102''" "\<not> stringGreater ''100'' ''100''"
  by simp_all

lemma headsSeen_sent:
  "sent (fold intervalTick headsSeen wsTracking100) =
     sent wsTracking100 @ [(7, newBlockText block102), (7, newBlockText block103)]"
proof -
  have who: "socket listener = 7" by (simp add: listener_def)
  have sub: "subscription wsTracking100 = Some (Polling ''100'')"
    by (simp add: wsTracking100_def startPolling_def wsLogger_def)
  show ?thesis
    by (simp add: headsSeen_def intervalTick_def sub wsTracking100_facts(2,3) observe_def
        outage_def chain_def toString_100 toString_102 toString_103 stringGreater_examples
        wsLogger_def accepts_examples who)
qed

lemma busy_run:
  "fst (executeWithRetry (fetchBlockNumber busyProvider) 3 (MonadService 5000)) = Inr (Some ''102'')"
  "journal (snd (executeWithRetry (fetchBlockNumber busyProvider) 3 (MonadService 5000))) =
     [Invoked 5000, Warned 1, BackedOff 2000, Invoked 7040, Warned 2, BackedOff 4000,
      Invoked 11080]"
  "clock (snd (executeWithRetry (fetchBlockNumber busyProvider) 3 (MonadService 5000))) = 11120"
  "cvalue (latestBlock (snd (executeWithRetry (fetchBlockNumber busyProvider) 3 (MonadService 5000)))) = Some 102"
  by (simp_all add: executeWithRetry_def attempts.simps pace_def Let_def setTimeout_def jot_def
      fetchBlockNumber_def await_def busyProvider_def MonadService_def rateLimited_429
      toString_102)

lemma lateRestart_http:
  "sseClients (http lateRestart) = []"
  "mcpClients (http lateRestart) = []"
  "blockPollingInterval (http lateRestart) = Some 2000"
  by (simp_all add: lateRestart_def greeted_def server_defs)




section \<open>The claims\<close>

subsection \<open>C1: block events reach a subscriber in strictly increasing order\<close>


subsection \<open>C2: one new block with a subscriber of each transport kind\<close>

text \<open>
  Claim C2 at a concrete input: an SSE response 1, an MCP-SSE response 2 and a WebSocket
  client 7 are connected, and the poll timer observes block 102 above the baseline 100.
  The poll writes one frame, to the SSE response; its \<open>data\<close> object has eight
  properties. Nothing is written to the MCP-SSE response, whose handler waits for an
  event that is never emitted, and nothing is sent to the WebSocket client. The text
  that \<open>handleNewBlock\<close> would send starts with a quote, a brace and a backslash: it is a
  JSON string holding the serialised event, not the event object.
\<close>

theorem three_kinds_one_block:
  \<open>sseClients (http threeKinds) = [1] \<and>
   mcpClients (http threeKinds) = [2] \<and>
   newBlockListeners (http threeKinds) = [2] \<and>
   map socket (clients (ws threeKinds)) = [7] \<and>
   drop (length (written (http threeKinds)))
     (written (http (handle (PollTimer (observe 102)) threeKinds))) =
     [(1, newBlockFrame block102)] \<and>
   sent (ws (handle (PollTimer (observe 102)) threeKinds)) = sent (ws threeKinds) \<and>
   newBlockFrame block102 =
     ''data: {"type":"newBlock","data":{"number":"102","hash":"0xabc","timestamp":"1700000000","gasUsed":"21000","miner":"0xfee","baseFeePerGas":"0","difficulty":"0","totalDifficulty":"0"}}''
       @ [CHR 0x0A, CHR 0x0A] \<and>
   take 3 (newBlockText block102) = [CHR 0x22, CHR ''{'', CHR 0x5C]\<close>
proof -
  note m = mcpConnect_while_polling [OF tracking100_facts(3), of 2 1700000000]
  have l: "lastBlock (http threeKinds) = Some (toString 100)"
    by (simp add: threeKinds_parts m tracking100_facts)
  have c: "sseClients (http threeKinds) = [1]"
    by (simp add: threeKinds_parts m tracking100_facts)
  have t: "armed (http threeKinds)"
    by (simp add: threeKinds_parts m tracking100_facts)
  have l': "lastBlock ((http threeKinds)\<lparr> armed := False \<rparr>) = Some (toString 100)"
    using l by simp
  have p: "poll (observe 102) ((http threeKinds)\<lparr> armed := False \<rparr>) =
             pollDone (announce block102 (toString 102) ((http threeKinds)\<lparr> armed := False \<rparr>))"
    using poll_greater [OF l', of "observe 102" 102]
    by (simp add: observe_facts toString_102)
  have w: "drop (length (written (http threeKinds)))
             (written (http (handle (PollTimer (observe 102)) threeKinds))) =
           [(1, newBlockFrame block102)]"
    by (simp add: pollTimer_def t p c)
  have sock: "map socket (clients (ws threeKinds)) = [7]"
    by (simp add: threeKinds_parts onConnection_def initialize_def WebSocketService_def
        wsLogger_def addClient_def send_def listener_def Let_def)
  have start: "take 3 (newBlockText block102) = [CHR 0x22, CHR ''{'', CHR 0x5C]"
    by (simp add: newBlockText_def block102_event quoted_def escape_def)
  show ?thesis
    using c w sock start block102_frame
    by (simp add: threeKinds_parts(1) m tracking100_more setAdd_def)
qed

subsection \<open>C3: the poller runs while some subscriber is connected\<close>

text \<open>
  Claim C3 at two concrete inputs. First, an SSE client connects, an MCP-SSE client
  connects, and the MCP-SSE client disconnects: the close handler of \<open>/mcp-sse\<close> looks
  at \<open>mcpClients\<close> only and stops the poller, although the SSE client is still connected,
  and a later head is not polled. Second, the only client connects while the provider
  is down and leaves again: the timer that \<open>startBlockPolling\<close> set for its retry is not
  cleared and starts the poller when no subscriber is left.
\<close>

theorem poller_out_of_step_with_subscribers:
  "sseClients (http mcpCameAndWent) = [1] \<and>
   mcpClients (http mcpCameAndWent) = [] \<and>
   blockPollingInterval (http mcpCameAndWent) = None \<and>
   written (http (handle (PollTimer (observe 102)) mcpCameAndWent)) =
     written (http mcpCameAndWent) \<and>
   sseClients (http lateRestart) = [] \<and>
   mcpClients (http lateRestart) = [] \<and>
   blockPollingInterval (http lateRestart) = Some 2000"
  by (simp add: mcpCameAndWent_http lateRestart_http pollTimer_def)

subsection \<open>C4: a failing send during a broadcast\<close>

text \<open>
  Claim C4, as amended. When the WebSocket service broadcasts the event of a block, a
  send that throws is caught and logged: every open client whose send succeeds is sent
  the event once, whatever the other clients do, and \<open>handleNewBlock\<close> returns normally.
  The set of clients is left as it was.
\<close>

theorem handleNewBlock_isolates_send_failure:
  assumes "wss s"
  shows "sent (handleNewBlock blockHeader s) =
           sent s @ map (\<lambda>c. (socket c, newBlockText blockHeader)) (filter accepts (clients s)) \<and>
         clients (handleNewBlock blockHeader s) = clients s \<and>
         wsLogged (handleNewBlock blockHeader s) =
           wsLogged s @ sendFailures (clients s) @ [LogInfo ''New block received:'']"
  using assms
  by (simp add: handleNewBlock_def broadcast_def fold_sendTo wsLogger_def newBlockText_def)

theorem handleNewBlock_isolates_send_failure_witness:
  "wss wsSubscribed \<and>
   sent (handleNewBlock block102 wsSubscribed) =
     sent wsSubscribed @ [(7, newBlockText block102)] \<and>
   clients (handleNewBlock block102 wsSubscribed) = [deafClient, listener] \<and>
   wsLogged (handleNewBlock block102 wsSubscribed) =
     wsLogged wsSubscribed @
       [LogError ''Error broadcasting to client:'' ''write EPIPE'',
        LogInfo ''New block received:'']"
proof -
  have who: "socket listener = 7" by (simp add: listener_def)
  have fails: "sendFailures [deafClient, listener] =
                 [LogError ''Error broadcasting to client:'' ''write EPIPE'']"
    by (simp add: sendFailures_def deafClient_def listener_def)
  show ?thesis
    using handleNewBlock_isolates_send_failure [of wsSubscribed block102]
    by (simp add: wsSubscribed_facts accepts_examples who fails)
qed

text \<open>
  Claim C4 as stated has the failing subscriber removed from the set. The client 8,
  whose send throws, is still in the set after the broadcast.
\<close>

theorem failing_client_stays_counterexample:
  "send deafClient (newBlockText block102) = Inl (Error ''write EPIPE'') \<and>
   deafClient \<in> set (clients (handleNewBlock block102 wsSubscribed))"
  by (simp add: send_def deafClient_def wsSubscribed_facts)

subsection \<open>C5: two rate-limit errors, then success\<close>

text \<open>
  Claim C5. The operation fails with a rate-limit error on its first and second
  invocation and succeeds with \<open>v\<close> on the third; it leaves the governor's own fields
  alone and does not turn the clock back (\<open>governed\<close>). Then \<open>executeWithRetry\<close> with
  the constructor's settings invokes it exactly three times, waits 2000 ms times 1 before
  the second and 2000 ms times 2 before the third invocation, keeps at least 1000 ms
  between consecutive invocations (and after the request before them), and returns
  \<open>v\<close>.
\<close>

theorem executeWithRetry_two_rate_limits:
  assumes gov: "governed operation"
    and cfg: "maxRetries s = 3" "minRequestInterval s = 1000" "retryDelay s = 2000"
    and r1: "\<forall>s. \<exists>e. fst (operation 1 s) = Inl e \<and> rateLimited e"
    and r2: "\<forall>s. \<exists>e. fst (operation 2 s) = Inl e \<and> rateLimited e"
    and ok: "\<forall>s. fst (operation 3 s) = Inr v"
  shows "\<exists>t1 t2 t3 s'.
           executeWithRetry operation (maxRetries s) s = (Inr (Some v), s') \<and>
           journal s' = journal s @ pacing s @
             [Invoked t1, Warned 1, BackedOff (2000 * 1),
              Invoked t2, Warned 2, BackedOff (2000 * 2),
              Invoked t3] \<and>
           lastRequestTime s + 1000 \<le> t1 \<and> t1 + 1000 \<le> t2 \<and> t2 + 1000 \<le> t3"
proof -
  define a where "a = pace s"
  obtain e1 s1 where o1: "operation 1 a = (Inl e1, s1)" and l1: "rateLimited e1"
    using r1 by (metis prod.collapse)
  note g1 = governedD [OF gov o1]
  define b0 where "b0 = setTimeout (retryDelay s1 * int 1)
                          (jot (BackedOff (retryDelay s1 * int 1)) (jot (Warned 1) s1))"
  define b where "b = pace b0"
  obtain e2 s2 where o2: "operation 2 b = (Inl e2, s2)" and l2: "rateLimited e2"
    using r2 by (metis prod.collapse)
  note g2 = governedD [OF gov o2]
  define c0 where "c0 = setTimeout (retryDelay s2 * int 2)
                          (jot (BackedOff (retryDelay s2 * int 2)) (jot (Warned 2) s2))"
  define c where "c = pace c0"
  obtain s3 where o3: "operation 3 c = (Inr v, s3)"
    using ok by (metis prod.collapse)
  note g3 = governedD [OF gov o3]
  have rd1: "retryDelay s1 = 2000" using g1 cfg by (simp add: a_def)
  have b0_clock: "clock b0 = clock s1 + 2000" and b0_last: "lastRequestTime b0 = clock a"
    and b0_min: "minRequestInterval b0 = 1000"
    using g1 cfg rd1 by (simp_all add: b0_def a_def)
  have b0_pacing: "pacing b0 = []"
    using g1(1) b0_clock b0_last b0_min by (simp add: pacing_def)
  have b_clock: "clock b = clock s1 + 2000"
    using g1(1) b0_clock b0_last b0_min by (simp add: b_def pace_clock)
  have rd2: "retryDelay s2 = 2000" using g2 rd1 by (simp add: b_def b0_def)
  have c0_clock: "clock c0 = clock s2 + 4000" and c0_last: "lastRequestTime c0 = clock b"
    and c0_min: "minRequestInterval c0 = 1000"
    using g2 rd2 b0_min by (simp_all add: c0_def b_def)
  have c0_pacing: "pacing c0 = []"
    using g2(1) c0_clock c0_last c0_min by (simp add: pacing_def)
  have c_clock: "clock c = clock s2 + 4000"
    using g2(1) c0_clock c0_last c0_min by (simp add: c_def pace_clock)
  have step1: "attempts operation 3 1 s = attempts operation 3 (Suc 1) b0"
    unfolding b0_def using o1 l1 by (intro attempts_retry) (simp_all add: a_def)
  have step2: "attempts operation 3 2 b0 = attempts operation 3 (Suc 2) c0"
    unfolding c0_def using o2 l2 by (intro attempts_retry) (simp_all add: b_def)
  have step3: "attempts operation 3 3 c0 = (Inr (Some v), s3)"
    using o3 by (intro attempts_value) (simp_all add: c_def)
  have run: "executeWithRetry operation (maxRetries s) s = (Inr (Some v), s3)"
    unfolding executeWithRetry_def cfg using step1 step2 step3
    by (simp add: eval_nat_numeral)
  have j: "journal s3 = journal s @ pacing s @
             [Invoked (clock a), Warned 1, BackedOff (2000 * 1),
              Invoked (clock b), Warned 2, BackedOff (2000 * 2),
              Invoked (clock c)]"
    using g1(5) g2(5) g3(5) rd1 rd2 b0_pacing c0_pacing
    by (simp add: c_def c0_def b_def b0_def a_def pace_journal)
  have t1: "lastRequestTime s + 1000 \<le> clock a"
    using cfg by (simp add: a_def pace_clock)
  have t2: "clock a + 1000 \<le> clock b" using g1(1) b_clock by simp
  have t3: "clock b + 1000 \<le> clock c" using g2(1) c_clock by simp
  from run j t1 t2 t3 show ?thesis by blast
qed

theorem executeWithRetry_two_rate_limits_witness:
  "governed (fetchBlockNumber busyProvider) \<and>
   maxRetries (MonadService 5000) = 3 \<and>
   journal (snd (executeWithRetry (fetchBlockNumber busyProvider) 3 (MonadService 5000))) =
     [Invoked 5000, Warned 1, BackedOff 2000, Invoked 7040, Warned 2, BackedOff 4000,
      Invoked 11080] \<and>
   (\<exists>t1 t2 t3 s'.
      executeWithRetry (fetchBlockNumber busyProvider) (maxRetries (MonadService 5000))
        (MonadService 5000) = (Inr (Some ''102''), s') \<and>
      journal s' = journal (MonadService 5000) @ pacing (MonadService 5000) @
        [Invoked t1, Warned 1, BackedOff (2000 * 1), Invoked t2, Warned 2, BackedOff (2000 * 2),
         Invoked t3] \<and>
      lastRequestTime (MonadService 5000) + 1000 \<le> t1 \<and> t1 + 1000 \<le> t2 \<and> t2 + 1000 \<le> t3)"
proof -
  have cfg: "maxRetries (MonadService 5000) = 3" "minRequestInterval (MonadService 5000) = 1000"
    "retryDelay (MonadService 5000) = 2000"
    by (simp_all add: MonadService_def)
  have r1: "\<forall>s. \<exists>e. fst (fetchBlockNumber busyProvider 1 s) = Inl e \<and> rateLimited e"
    by (simp add: fst_fetchBlockNumber busyProvider_def rateLimited_429)
  have r2: "\<forall>s. \<exists>e. fst (fetchBlockNumber busyProvider 2 s) = Inl e \<and> rateLimited e"
    by (simp add: fst_fetchBlockNumber busyProvider_def rateLimited_429)
  have ok: "\<forall>s. fst (fetchBlockNumber busyProvider 3 s) = Inr ''102''"
    by (simp add: fst_fetchBlockNumber busyProvider_def toString_102)
  show ?thesis
    using executeWithRetry_two_rate_limits [OF governed_fetchBlockNumber cfg r1 r2 ok] cfg(1)
    by (simp add: governed_fetchBlockNumber busy_run(2))
qed

subsection \<open>C6: any other error is not retried\<close>

text \<open>
  Claim C6. An error that is not of the rate-limit class is never retried: when the
  first invocation of the wrapped operation throws such an error, \<open>executeWithRetry\<close>
  returns that error together with the state this one invocation left, so no wait and
  no second invocation follow it. For an operation that leaves the journal alone, the
  journal shows the one invocation, after the spacing wait if one was due.
\<close>

theorem executeWithRetry_other_error:
  assumes "0 < retries" and "fst (operation 1 (pace s)) = Inl e" and "\<not> rateLimited e"
  shows "executeWithRetry operation retries s = (Inl e, snd (operation 1 (pace s))) \<and>
         (governed operation \<longrightarrow>
            journal (snd (executeWithRetry operation retries s)) =
              journal s @ pacing s @ [Invoked (clock (pace s))])"
proof -
  have o: "operation 1 (pace s) = (Inl e, snd (operation 1 (pace s)))"
    using assms(2) by (metis prod.collapse)
  have r: "executeWithRetry operation retries s = (Inl e, snd (operation 1 (pace s)))"
    unfolding executeWithRetry_def using o assms(1,3) by (intro attempts_throw) auto
  have "journal (snd (operation 1 (pace s))) = journal s @ pacing s @ [Invoked (clock (pace s))]"
    if "governed operation"
    using governedD(5) [OF that o] by (simp add: pace_journal)
  then show ?thesis using r by simp
qed

theorem executeWithRetry_other_error_witness:
  "0 < maxRetries (MonadService 5000) \<and>
   \<not> rateLimited (Error ''connect ECONNREFUSED'') \<and>
   executeWithRetry (fetchBlockNumber brokenProvider) (maxRetries (MonadService 5000))
     (MonadService 5000) =
   (Inl (Error ''connect ECONNREFUSED''),
    snd (fetchBlockNumber brokenProvider 1 (pace (MonadService 5000)))) \<and>
   journal (snd (executeWithRetry (fetchBlockNumber brokenProvider)
                   (maxRetries (MonadService 5000)) (MonadService 5000))) =
     [Invoked 5000]"
proof -
  have pos: "0 < maxRetries (MonadService 5000)" by (simp add: MonadService_def)
  have out: "fst (fetchBlockNumber brokenProvider 1 (pace (MonadService 5000))) =
               Inl (Error ''connect ECONNREFUSED'')"
    by (simp add: fst_fetchBlockNumber brokenProvider_def)
  have j: "journal (MonadService 5000) @ pacing (MonadService 5000) @
             [Invoked (clock (pace (MonadService 5000)))] = [Invoked 5000]"
    by (simp add: pacing_def pace_clock MonadService_def)
  note t = executeWithRetry_other_error [where operation = "fetchBlockNumber brokenProvider"
      and s = "MonadService 5000" and retries = "maxRetries (MonadService 5000)"
      and e = "Error ''connect ECONNREFUSED''", OF pos out not_rateLimited_refused]
  have a: "executeWithRetry (fetchBlockNumber brokenProvider) (maxRetries (MonadService 5000))
             (MonadService 5000) =
           (Inl (Error ''connect ECONNREFUSED''),
            snd (fetchBlockNumber brokenProvider 1 (pace (MonadService 5000))))"
    using t by (rule conjunct1)
  have "journal (snd (executeWithRetry (fetchBlockNumber brokenProvider)
                        (maxRetries (MonadService 5000)) (MonadService 5000))) =
          journal (MonadService 5000) @ pacing (MonadService 5000) @
            [Invoked (clock (pace (MonadService 5000)))]"
    using t governed_fetchBlockNumber [of brokenProvider] by blast
  then have b: "journal (snd (executeWithRetry (fetchBlockNumber brokenProvider)
                        (maxRetries (MonadService 5000)) (MonadService 5000))) =
                  [Invoked 5000]"
    by (simp only: j)
  from pos not_rateLimited_refused a b show ?thesis by blast
qed

subsection \<open>C7: a missed block is skipped\<close>

text \<open>
  Claim C7. The last seen head is 100 and the poll observes head 102, for which the
  provider returns block 102. Then the poll writes one frame to every SSE response, the
  frame of that block, none of the frames written is the frame of a block numbered 101,
  and the last seen head becomes 102.
\<close>

theorem poll_announces_head_only:
  assumes "lastBlock s = Some ''100''" and "latest obs = Inr 102"
    and "getBlock obs ''102'' = Inr (Some b)" and "number b = 102"
  shows "written (poll obs s) =
           written s @ map (\<lambda>client. (client, newBlockFrame b)) (sseClients s) \<and>
         lastBlock (poll obs s) = Some ''102'' \<and>
         (\<forall>b' client. number b' = 101 \<longrightarrow>
            (client, newBlockFrame b') \<notin> set (drop (length (written s)) (written (poll obs s))))"
proof -
  have p: "poll obs s = pollDone (announce b (toString 102) s)"
    using assms poll_greater [of s 100 obs 102] by (simp add: toString_100 toString_102)
  have differ: "newBlockFrame b' \<noteq> newBlockFrame b" if "number b' = 101" for b'
    using that assms(4)
    by (simp add: newBlockFrame_def blockInfo_def dataFrame_def quoted_plain
        toString_101 toString_102)
  show ?thesis
    using differ by (auto simp add: p toString_102)
qed

theorem poll_announces_head_only_witness:
  "lastBlock tracking100 = Some ''100'' \<and> latest (observe 102) = Inr 102 \<and>
   getBlock (observe 102) ''102'' = Inr (Some block102) \<and> number block102 = 102 \<and>
   written (poll (observe 102) tracking100) =
     written tracking100 @ [(1, newBlockFrame block102)] \<and>
   lastBlock (poll (observe 102) tracking100) = Some ''102''"
proof -
  have l: "lastBlock tracking100 = Some ''100''"
    using tracking100_facts(1) by (simp add: toString_100)
  show ?thesis
    using poll_announces_head_only [of tracking100 "observe 102" block102] l
    by (simp add: observe_facts tracking100_facts(2))
qed

subsection \<open>C8: a failed fetch inside the poll loop\<close>



subsection \<open>C9: a lookup after a store\<close>

text \<open>
  Claim C9, as amended. After a fetch has stored a value, a lookup \<open>elapsed\<close>
  milliseconds later returns the stored value and leaves the service as it is (no
  upstream call) when the value is truthy and \<open>elapsed\<close> is below the key's TTL, whatever
  the provider would answer. When \<open>elapsed\<close> has reached the TTL the lookup invokes the
  upstream operation afresh: if the provider answers the first request with a value,
  the lookup returns that value, not the stored one, and the cache entry holds it with
  the time of the answer; if the provider answers with an error that is not a
  rate-limit error, the lookup throws it and the entry is as it was. Both keys of the
  cache are covered.
\<close>

theorem cache_get_after_put:
  "(outcome (rpc k) = Inr n \<and> n \<noteq> 0 \<and> elapsed < ttl (latestBlock s) \<longrightarrow>
      getLatestBlockNumber rpc' (afterBlockPut rpc k elapsed s) =
        (Inr (Some (toString n)), afterBlockPut rpc k elapsed s)) \<and>
   (outcome (rpc k) = Inr n \<and> ttl (latestBlock s) \<le> elapsed \<and> 0 < maxRetries s \<longrightarrow>
      fetchedAfresh (afterBlockPut rpc k elapsed s)
        (snd (getLatestBlockNumber rpc' (afterBlockPut rpc k elapsed s))) \<and>
      (\<forall>m. outcome (rpc' 1) = Inr m \<longrightarrow>
         getLatestBlockNumber rpc' (afterBlockPut rpc k elapsed s) =
           (Inr (Some (toString m)), blockStored (rpc' 1) m (afterBlockPut rpc k elapsed s))) \<and>
      (\<forall>e. outcome (rpc' 1) = Inl e \<and> \<not> rateLimited e \<longrightarrow>
         getLatestBlockNumber rpc' (afterBlockPut rpc k elapsed s) =
           (Inl e, arrived (rpc' 1) (afterBlockPut rpc k elapsed s)))) \<and>
   (outcome (call j) = Inr text \<and> text \<noteq> [] \<and> elapsed < ttl (greeting s) \<longrightarrow>
      getData call' (afterGreetingPut call j elapsed s) =
        (Inr (Some text), afterGreetingPut call j elapsed s)) \<and>
   (outcome (call j) = Inr text \<and> ttl (greeting s) \<le> elapsed \<and> 0 < maxRetries s \<longrightarrow>
      fetchedAfresh (afterGreetingPut call j elapsed s)
        (snd (getData call' (afterGreetingPut call j elapsed s))) \<and>
      (\<forall>text'. outcome (call' 1) = Inr text' \<longrightarrow>
         getData call' (afterGreetingPut call j elapsed s) =
           (Inr (Some text'),
            greetingStored (call' 1) text' (afterGreetingPut call j elapsed s))) \<and>
      (\<forall>e. outcome (call' 1) = Inl e \<and> \<not> rateLimited e \<longrightarrow>
         getData call' (afterGreetingPut call j elapsed s) =
           (Inl e, arrived (call' 1) (afterGreetingPut call j elapsed s))))"
proof (intro conjI impI)
  assume "outcome (rpc k) = Inr n \<and> n \<noteq> 0 \<and> elapsed < ttl (latestBlock s)"
  then show "getLatestBlockNumber rpc' (afterBlockPut rpc k elapsed s) =
               (Inr (Some (toString n)), afterBlockPut rpc k elapsed s)"
    by (simp add: getLatestBlockNumber_def afterBlockPut_def fetchBlockNumber_put
        truthyNumber_def)
next
  assume "outcome (call j) = Inr text \<and> text \<noteq> [] \<and> elapsed < ttl (greeting s)"
  then show "getData call' (afterGreetingPut call j elapsed s) =
               (Inr (Some text), afterGreetingPut call j elapsed s)"
    by (simp add: getData_def afterGreetingPut_def fetchGreeting_put truthyString_def)
next
  assume a: "outcome (rpc k) = Inr n \<and> ttl (latestBlock s) \<le> elapsed \<and> 0 < maxRetries s"
  let ?s = "afterBlockPut rpc k elapsed s"
  have pos: "0 < maxRetries ?s"
    using a by (simp add: afterBlockPut_def fetchBlockNumber_put)
  have miss: "\<not> (truthyNumber (cvalue (latestBlock ?s)) \<and>
                 clock ?s - timestamp (latestBlock ?s) < ttl (latestBlock ?s))"
    using a by (simp add: afterBlockPut_def fetchBlockNumber_put)
  note fresh = getLatestBlockNumber_fresh [OF pos miss]
  show "fetchedAfresh ?s (snd (getLatestBlockNumber rpc' ?s))"
    by (rule fresh(3))
  show "\<forall>m. outcome (rpc' 1) = Inr m \<longrightarrow>
          getLatestBlockNumber rpc' ?s = (Inr (Some (toString m)), blockStored (rpc' 1) m ?s)"
    using fresh(1) by blast
  show "\<forall>e. outcome (rpc' 1) = Inl e \<and> \<not> rateLimited e \<longrightarrow>
          getLatestBlockNumber rpc' ?s = (Inl e, arrived (rpc' 1) ?s)"
    using fresh(2) by blast
next
  assume a: "outcome (call j) = Inr text \<and> ttl (greeting s) \<le> elapsed \<and> 0 < maxRetries s"
  let ?s = "afterGreetingPut call j elapsed s"
  have pos: "0 < maxRetries ?s"
    using a by (simp add: afterGreetingPut_def fetchGreeting_put)
  have miss: "\<not> (truthyString (cvalue (greeting ?s)) \<and>
                 clock ?s - timestamp (greeting ?s) < ttl (greeting ?s))"
    using a by (simp add: afterGreetingPut_def fetchGreeting_put)
  note fresh = getData_fresh [OF pos miss]
  show "fetchedAfresh ?s (snd (getData call' ?s))"
    by (rule fresh(3))
  show "\<forall>text'. outcome (call' 1) = Inr text' \<longrightarrow>
          getData call' ?s = (Inr (Some text'), greetingStored (call' 1) text' ?s)"
    using fresh(1) by blast
  show "\<forall>e. outcome (call' 1) = Inl e \<and> \<not> rateLimited e \<longrightarrow>
          getData call' ?s = (Inl e, arrived (call' 1) ?s)"
    using fresh(2) by blast
qed

theorem cache_get_after_put_witness:
  "getLatestBlockNumber advancedProvider (afterBlockPut steadyProvider 1 1999 (MonadService 5000)) =
     (Inr (Some ''102''), afterBlockPut steadyProvider 1 1999 (MonadService 5000)) \<and>
   fst (getLatestBlockNumber advancedProvider
          (afterBlockPut steadyProvider 1 2000 (MonadService 5000))) = Inr (Some ''103'') \<and>
   latestBlock (snd (getLatestBlockNumber advancedProvider
                       (afterBlockPut steadyProvider 1 2000 (MonadService 5000)))) =
     \<lparr> cvalue = Some 103, timestamp = 7080, ttl = 2000 \<rparr> \<and>
   getLatestBlockNumber brokenProvider (afterBlockPut steadyProvider 1 2000 (MonadService 5000)) =
     (Inl (Error ''connect ECONNREFUSED''),
      arrived (brokenProvider 1) (afterBlockPut steadyProvider 1 2000 (MonadService 5000))) \<and>
   getData byeProvider (afterGreetingPut helloProvider 1 4999 (MonadService 5000)) =
     (Inr (Some ''hello''), afterGreetingPut helloProvider 1 4999 (MonadService 5000)) \<and>
   fst (getData byeProvider (afterGreetingPut helloProvider 1 5000 (MonadService 5000))) =
     Inr (Some ''bye'') \<and>
   greeting (snd (getData byeProvider (afterGreetingPut helloProvider 1 5000 (MonadService 5000)))) =
     \<lparr> cvalue = Some ''bye'', timestamp = 10080, ttl = 5000 \<rparr>"
proof -
  have put: "outcome (steadyProvider 1) = Inr 102" "outcome (helloProvider 1) = Inr ''hello''"
    by (simp_all add: steadyProvider_def helloProvider_def)
  have cfg: "ttl (latestBlock (MonadService 5000)) = 2000" "ttl (greeting (MonadService 5000)) = 5000"
    "0 < maxRetries (MonadService 5000)"
    by (simp_all add: MonadService_def)
  have hit: "getLatestBlockNumber advancedProvider
               (afterBlockPut steadyProvider 1 1999 (MonadService 5000)) =
             (Inr (Some ''102''), afterBlockPut steadyProvider 1 1999 (MonadService 5000))"
    using cache_get_after_put [of steadyProvider 1 102 1999 "MonadService 5000" advancedProvider
        helloProvider 1 "''hello''" byeProvider] put cfg
    by (simp add: toString_102)
  have hit': "getData byeProvider (afterGreetingPut helloProvider 1 4999 (MonadService 5000)) =
                (Inr (Some ''hello''), afterGreetingPut helloProvider 1 4999 (MonadService 5000))"
    using cache_get_after_put [of steadyProvider 1 102 4999 "MonadService 5000" advancedProvider
        helloProvider 1 "''hello''" byeProvider] put cfg
    by simp
  have old: "getLatestBlockNumber advancedProvider
               (afterBlockPut steadyProvider 1 2000 (MonadService 5000)) =
             (Inr (Some (toString 103)),
              blockStored (advancedProvider 1) 103
                (afterBlockPut steadyProvider 1 2000 (MonadService 5000)))"
    using cache_get_after_put [of steadyProvider 1 102 2000 "MonadService 5000" advancedProvider
        helloProvider 1 "''hello''" byeProvider] put cfg
    by (simp add: advancedProvider_def)
  have down: "getLatestBlockNumber brokenProvider
                (afterBlockPut steadyProvider 1 2000 (MonadService 5000)) =
              (Inl (Error ''connect ECONNREFUSED''),
               arrived (brokenProvider 1)
                 (afterBlockPut steadyProvider 1 2000 (MonadService 5000)))"
    using cache_get_after_put [of steadyProvider 1 102 2000 "MonadService 5000" brokenProvider
        helloProvider 1 "''hello''" byeProvider] put cfg not_rateLimited_refused
    by (simp add: brokenProvider_def)
  have old': "getData byeProvider (afterGreetingPut helloProvider 1 5000 (MonadService 5000)) =
                (Inr (Some ''bye''),
                 greetingStored (byeProvider 1) ''bye''
                   (afterGreetingPut helloProvider 1 5000 (MonadService 5000)))"
    using cache_get_after_put [of steadyProvider 1 102 5000 "MonadService 5000" advancedProvider
        helloProvider 1 "''hello''" byeProvider] put cfg
    by (simp add: byeProvider_def)
  have at: "clock (pace (afterBlockPut steadyProvider 1 2000 (MonadService 5000))) = 7040"
    "clock (pace (afterGreetingPut helloProvider 1 5000 (MonadService 5000))) = 10040"
    "ttl (latestBlock (afterBlockPut steadyProvider 1 2000 (MonadService 5000))) = 2000"
    "ttl (greeting (afterGreetingPut helloProvider 1 5000 (MonadService 5000))) = 5000"
    by (simp_all add: pace_clock afterBlockPut_def afterGreetingPut_def later_def
        fetchBlockNumber_def fetchGreeting_def await_def steadyProvider_def helloProvider_def
        MonadService_def)
  have fresh: "fst (getLatestBlockNumber advancedProvider
                     (afterBlockPut steadyProvider 1 2000 (MonadService 5000))) =
                 Inr (Some ''103'')"
    "latestBlock (snd (getLatestBlockNumber advancedProvider
                         (afterBlockPut steadyProvider 1 2000 (MonadService 5000)))) =
       \<lparr> cvalue = Some 103, timestamp = 7080, ttl = 2000 \<rparr>"
    unfolding old using at by (simp_all add: toString_103 advancedProvider_def)
  have fresh': "fst (getData byeProvider (afterGreetingPut helloProvider 1 5000 (MonadService 5000))) =
                  Inr (Some ''bye'')"
    "greeting (snd (getData byeProvider (afterGreetingPut helloProvider 1 5000 (MonadService 5000)))) =
       \<lparr> cvalue = Some ''bye'', timestamp = 10080, ttl = 5000 \<rparr>"
    unfolding old' using at by (simp_all add: byeProvider_def)
  from hit fresh down hit' fresh' show ?thesis by blast
qed

text \<open>
  Claim C9 as stated fails for a falsy value: one millisecond after the empty greeting
  was stored, well inside its TTL of 5000 ms, \<open>getData\<close> does not answer from the
  cache.
\<close>

theorem cache_get_counterexample:
  "cvalue (greeting emptyGreetingService) = Some [] \<and>
   clock emptyGreetingService - timestamp (greeting emptyGreetingService)
     < ttl (greeting emptyGreetingService) \<and>
   getData emptyGreeting emptyGreetingService \<noteq> (Inr (Some []), emptyGreetingService)"
proof -
  have "fetchedAfresh emptyGreetingService (snd (getData emptyGreeting emptyGreetingService))"
    by (rule getData_falsy) (simp_all add: emptyGreetingService_facts)
  then have "snd (getData emptyGreeting emptyGreetingService) \<noteq> emptyGreetingService"
    by (rule fetchedAfresh_changes)
  then have "getData emptyGreeting emptyGreetingService \<noteq> (Inr (Some []), emptyGreetingService)"
    by (metis snd_conv)
  then show ?thesis by (simp add: emptyGreetingService_facts)
qed

subsection \<open>C10: a falsy cached value counts as absent\<close>

text \<open>
  Claim C10. A cached empty greeting, and a cached block number zero, are treated as
  absent whatever their age: \<open>getData\<close> and \<open>getLatestBlockNumber\<close> take the
  \<open>executeWithRetry\<close> path and invoke the upstream operation. When the provider answers
  the first request with a value, that value is returned and is put into the cache
  entry with the time of the answer; when it answers with an error that is not a
  rate-limit error, the lookup throws that error.
\<close>

theorem falsy_cached_value_is_refetched:
  assumes "0 < maxRetries s"
  shows "(cvalue (greeting s) = Some [] \<longrightarrow>
            getData rpc s = executeWithRetry (fetchGreeting rpc) (maxRetries s) s \<and>
            fetchedAfresh s (snd (getData rpc s)) \<and>
            (\<forall>text. outcome (rpc 1) = Inr text \<longrightarrow>
               getData rpc s = (Inr (Some text), greetingStored (rpc 1) text s)) \<and>
            (\<forall>e. outcome (rpc 1) = Inl e \<and> \<not> rateLimited e \<longrightarrow>
               getData rpc s = (Inl e, arrived (rpc 1) s))) \<and>
         (cvalue (latestBlock s) = Some 0 \<longrightarrow>
            getLatestBlockNumber rpc' s =
              executeWithRetry (fetchBlockNumber rpc') (maxRetries s) s \<and>
            fetchedAfresh s (snd (getLatestBlockNumber rpc' s)) \<and>
            (\<forall>n. outcome (rpc' 1) = Inr n \<longrightarrow>
               getLatestBlockNumber rpc' s =
                 (Inr (Some (toString n)), blockStored (rpc' 1) n s)) \<and>
            (\<forall>e. outcome (rpc' 1) = Inl e \<and> \<not> rateLimited e \<longrightarrow>
               getLatestBlockNumber rpc' s = (Inl e, arrived (rpc' 1) s)))"
proof (intro conjI impI)
  assume a: "cvalue (greeting s) = Some []"
  have miss: "\<not> (truthyString (cvalue (greeting s)) \<and>
                 clock s - timestamp (greeting s) < ttl (greeting s))"
    using a by (simp add: truthyString_def)
  note fresh = getData_fresh [OF assms miss]
  show "getData rpc s = executeWithRetry (fetchGreeting rpc) (maxRetries s) s"
    unfolding getData_def using miss by (rule if_not_P)
  show "fetchedAfresh s (snd (getData rpc s))"
    by (rule fresh(3))
  show "\<forall>text. outcome (rpc 1) = Inr text \<longrightarrow>
          getData rpc s = (Inr (Some text), greetingStored (rpc 1) text s)"
    using fresh(1) by blast
  show "\<forall>e. outcome (rpc 1) = Inl e \<and> \<not> rateLimited e \<longrightarrow>
          getData rpc s = (Inl e, arrived (rpc 1) s)"
    using fresh(2) by blast
next
  assume a: "cvalue (latestBlock s) = Some 0"
  have miss: "\<not> (truthyNumber (cvalue (latestBlock s)) \<and>
                 clock s - timestamp (latestBlock s) < ttl (latestBlock s))"
    using a by (simp add: truthyNumber_def)
  note fresh = getLatestBlockNumber_fresh [OF assms miss]
  show "getLatestBlockNumber rpc' s = executeWithRetry (fetchBlockNumber rpc') (maxRetries s) s"
    unfolding getLatestBlockNumber_def using miss by (rule if_not_P)
  show "fetchedAfresh s (snd (getLatestBlockNumber rpc' s))"
    by (rule fresh(3))
  show "\<forall>n. outcome (rpc' 1) = Inr n \<longrightarrow>
          getLatestBlockNumber rpc' s = (Inr (Some (toString n)), blockStored (rpc' 1) n s)"
    using fresh(1) by blast
  show "\<forall>e. outcome (rpc' 1) = Inl e \<and> \<not> rateLimited e \<longrightarrow>
          getLatestBlockNumber rpc' s = (Inl e, arrived (rpc' 1) s)"
    using fresh(2) by blast
qed

theorem falsy_cached_value_is_refetched_witness:
  "0 < maxRetries genesisService \<and>
   cvalue (greeting genesisService) = Some [] \<and>
   clock genesisService - timestamp (greeting genesisService) < ttl (greeting genesisService) \<and>
   cvalue (latestBlock genesisService) = Some 0 \<and>
   clock genesisService - timestamp (latestBlock genesisService)
     < ttl (latestBlock genesisService) \<and>
   fst (getData helloProvider genesisService) = Inr (Some ''hello'') \<and>
   cvalue (greeting (snd (getData helloProvider genesisService))) = Some ''hello'' \<and>
   timestamp (greeting (snd (getData helloProvider genesisService))) =
     clock genesisService + 40 \<and>
   fst (getLatestBlockNumber steadyProvider genesisService) = Inr (Some ''102'') \<and>
   cvalue (latestBlock (snd (getLatestBlockNumber steadyProvider genesisService))) = Some 102 \<and>
   timestamp (latestBlock (snd (getLatestBlockNumber steadyProvider genesisService))) =
     clock genesisService + 40 \<and>
   fetchedAfresh genesisService (snd (getData helloProvider genesisService)) \<and>
   fetchedAfresh genesisService (snd (getLatestBlockNumber steadyProvider genesisService))"
proof -
  have pos: "0 < maxRetries genesisService" by (simp add: genesisService_facts)
  have answers: "outcome (helloProvider 1) = Inr ''hello''" "outcome (steadyProvider 1) = Inr 102"
    by (simp_all add: helloProvider_def steadyProvider_def)
  note t = falsy_cached_value_is_refetched [OF pos, of helloProvider steadyProvider]
  have g: "getData helloProvider genesisService =
             (Inr (Some ''hello''), greetingStored (helloProvider 1) ''hello'' genesisService)"
    using t genesisService_facts(2) answers(1) by blast
  have gf: "fetchedAfresh genesisService (snd (getData helloProvider genesisService))"
    using t genesisService_facts(2) by blast
  have b: "getLatestBlockNumber steadyProvider genesisService =
             (Inr (Some (toString 102)), blockStored (steadyProvider 1) 102 genesisService)"
    using t genesisService_facts(5) answers(2) by blast
  have bf: "fetchedAfresh genesisService (snd (getLatestBlockNumber steadyProvider genesisService))"
    using t genesisService_facts(5) by blast
  have at: "clock (pace genesisService) = clock genesisService"
    by (simp add: pace_clock genesisService_def afterGreetingPut_def afterBlockPut_def later_def
        fetchGreeting_def fetchBlockNumber_def await_def emptyGreeting_def genesisProvider_def
        MonadService_def)
  have stored: "fst (getData helloProvider genesisService) = Inr (Some ''hello'')"
    "cvalue (greeting (snd (getData helloProvider genesisService))) = Some ''hello''"
    "timestamp (greeting (snd (getData helloProvider genesisService))) = clock genesisService + 40"
    "fst (getLatestBlockNumber steadyProvider genesisService) = Inr (Some ''102'')"
    "cvalue (latestBlock (snd (getLatestBlockNumber steadyProvider genesisService))) = Some 102"
    "timestamp (latestBlock (snd (getLatestBlockNumber steadyProvider genesisService))) =
       clock genesisService + 40"
    unfolding g b by (simp_all add: at toString_102 helloProvider_def steadyProvider_def)
  have inside: "0 < maxRetries genesisService"
    "cvalue (greeting genesisService) = Some []"
    "clock genesisService - timestamp (greeting genesisService) < ttl (greeting genesisService)"
    "cvalue (latestBlock genesisService) = Some 0"
    "clock genesisService - timestamp (latestBlock genesisService)
       < ttl (latestBlock genesisService)"
    by (simp_all add: genesisService_facts)
  from inside stored gf bf show ?thesis by blast
qed

end
